theory Spec2Isabelle
  imports Complex_Main "HOL-Library.AList"
begin

section \<open>Values handled by the script\<close>

text \<open>
  A Number: \<^verbatim>\<open>NaN\<close>, an infinity (which \<^verbatim>\<open>response.json()\<close> gives for
  a numeral beyond the range of a double, and a product can give), or the real value
  of a finite double, so that \<^verbatim>\<open>-0\<close> and \<^verbatim>\<open>0\<close> coincide: the
  script observes numbers only through \<^verbatim>\<open>!==\<close>, truthiness and the
  conversions, which do not tell them apart.
\<close>

datatype number = NaN | PosInf | NegInf | Fin real

text \<open>
  The script of \<^verbatim>\<open>src/main.js\<close> only handles values that come out of
  \<^verbatim>\<open>response.json()\<close>, plus \<^verbatim>\<open>undefined\<close> (a missing property) and
  the numbers it computes itself. An object is the list of its own properties in
  property order. Characters of a \<open>string\<close> stand for the code units of the
  JavaScript string.
\<close>

datatype jsval =
    JUndefined
  | JNull
  | JBool bool
  | JNumber number
  | JStr string
  | JArr "jsval list"
  | JObj "(string \<times> jsval) list"

abbreviation JNum :: "real \<Rightarrow> jsval" where
  "JNum x \<equiv> JNumber (Fin x)"

text \<open>
  What a \<^verbatim>\<open>throw\<close> or a rejected promise carries: \<open>HttpError\<close> is the
  \<^verbatim>\<open>new Error(`HTTP error! status: ...`)\<close> of line 28, \<open>NetworkError\<close>
  the rejection of \<^verbatim>\<open>fetch\<close>, \<open>TypeError\<close> what the language throws on
  a property of \<^verbatim>\<open>null\<close> and on a failed conversion.
\<close>

datatype exn = TypeError | SyntaxError | NetworkError | HttpError nat

text \<open>
  One request to the server either is rejected (transport failure) or resolves to a
  response with a status and a body; reading the body with \<^verbatim>\<open>response.json()\<close>
  gives a value or rejects (\<open>SyntaxError\<close> when the body is not JSON).
\<close>

datatype outcome = Rejected | Response nat "exn + jsval"

definition ok :: "nat \<Rightarrow> bool" where
  "ok status \<longleftrightarrow> 200 \<le> status \<and> status \<le> 299"


section \<open>Effects\<close>

text \<open>The console messages of the script, with the values they print.\<close>

datatype message =
    AttemptFetching nat string
  | ApiResponse jsval
  | UnexpectedFormat
  | AttemptFailed nat exn
  | Retrying nat nat
  | MaxRetriesReached exn
  | UComponentHeader jsval
  | VComponentHeader jsval
  | UDataLength jsval
  | VDataLength jsval
  | DataLengthMismatch jsval jsval number
  | NoMeaningfulWindData
  | LoadedSuccessfully

datatype level = LOG | WARN | ERROR

text \<open>
  The four \<^verbatim>\<open>alert\<close> calls: invalid response format (line 37), fetch failed
  after multiple attempts (line 50), data length mismatch (line 79), no meaningful
  wind data (line 87).
\<close>

datatype alert = InvalidFormatAlert | FetchFailedAlert | LengthMismatchAlert | NoDataAlert

text \<open>
  Everything the script does to its environment, in order: a GET request, a console
  line, an alert, the retry delay in milliseconds, and the two calls to the rendering
  collaborator (\<^verbatim>\<open>L.velocityLayer\<close> with its \<^verbatim>\<open>data\<close> option, the other
  options being constants, and \<^verbatim>\<open>addTo(map)\<close>). The collaborators, the console,
  \<^verbatim>\<open>alert\<close> and \<^verbatim>\<open>setTimeout\<close> are taken to return normally.
\<close>

datatype event =
    Fetch string
  | Console level message
  | Alert alert
  | Wait nat
  | VelocityLayer jsval
  | AddTo

text \<open>
  A computation yields a value or throws, and leaves a trace of events in both cases.
\<close>

type_synonym 'a comp = "(exn + 'a) \<times> event list"

definition ret :: "'a \<Rightarrow> 'a comp" where
  "ret x = (Inr x, [])"

definition throw :: "exn \<Rightarrow> 'a comp" where
  "throw e = (Inl e, [])"

definition lift :: "exn + 'a \<Rightarrow> 'a comp" where
  "lift r = (r, [])"

definition emit :: "event \<Rightarrow> unit comp" where
  "emit ev = (Inr (), [ev])"

definition andThen :: "'a comp \<Rightarrow> ('a \<Rightarrow> 'b comp) \<Rightarrow> 'b comp" where
  "andThen m f =
     (case m of
        (Inl e, es) \<Rightarrow> (Inl e, es)
      | (Inr x, es) \<Rightarrow> (case f x of (r, es') \<Rightarrow> (r, es @ es')))"


section \<open>Operations of the language on these values\<close>

fun truthy :: "jsval \<Rightarrow> bool" where
  "truthy JUndefined = False"
| "truthy JNull = False"
| "truthy (JBool b) = b"
| "truthy (JNumber n) = (n \<noteq> NaN \<and> n \<noteq> Fin 0)"
| "truthy (JStr s) = (s \<noteq> [])"
| "truthy (JArr xs) = True"
| "truthy (JObj ps) = True"

fun isArray :: "jsval \<Rightarrow> bool" where
  "isArray (JArr xs) = True"
| "isArray v = False"

text \<open>
  Reading the property \<open>k\<close> of a value, for the names the script reads
  (\<^verbatim>\<open>header\<close>, \<^verbatim>\<open>data\<close>, \<^verbatim>\<open>nx\<close>, \<^verbatim>\<open>ny\<close>): none of them is an
  index or a property of a prototype, so only an object can have one. Reading a
  property of \<^verbatim>\<open>null\<close> or \<^verbatim>\<open>undefined\<close> throws.
\<close>

fun property :: "string \<Rightarrow> jsval \<Rightarrow> exn + jsval" where
  "property k JUndefined = Inl TypeError"
| "property k JNull = Inl TypeError"
| "property k (JObj ps) = Inr (case map_of ps k of None \<Rightarrow> JUndefined | Some v \<Rightarrow> v)"
| "property k v = Inr JUndefined"

text \<open>The property \<^verbatim>\<open>length\<close>.\<close>

fun lengthOf :: "jsval \<Rightarrow> exn + jsval" where
  "lengthOf JUndefined = Inl TypeError"
| "lengthOf JNull = Inl TypeError"
| "lengthOf (JArr xs) = Inr (JNum (real (length xs)))"
| "lengthOf (JStr s) = Inr (JNum (real (length s)))"
| "lengthOf (JObj ps) = Inr (case map_of ps ''length'' of None \<Rightarrow> JUndefined | Some v \<Rightarrow> v)"
| "lengthOf v = Inr JUndefined"

text \<open>
  \<^verbatim>\<open>v !== n\<close> for a value and a Number: \<^verbatim>\<open>NaN\<close> differs from
  everything, itself included.
\<close>

fun strictNeq :: "jsval \<Rightarrow> number \<Rightarrow> bool" where
  "strictNeq (JNumber x) n = (x = NaN \<or> n = NaN \<or> x \<noteq> n)"
| "strictNeq v n = True"

text \<open>
  The array pattern \<^verbatim>\<open>const [a, b] = v\<close>: the first two values of the
  iteration, \<^verbatim>\<open>undefined\<close> where it is shorter; only arrays and strings
  among these values are iterable.
\<close>

fun destructure2 :: "jsval \<Rightarrow> exn + (jsval \<times> jsval)" where
  "destructure2 (JArr []) = Inr (JUndefined, JUndefined)"
| "destructure2 (JArr [a]) = Inr (a, JUndefined)"
| "destructure2 (JArr (a # b # xs)) = Inr (a, b)"
| "destructure2 (JStr []) = Inr (JUndefined, JUndefined)"
| "destructure2 (JStr [a]) = Inr (JStr [a], JUndefined)"
| "destructure2 (JStr (a # b # xs)) = Inr (JStr [a], JStr [b])"
| "destructure2 v = Inl TypeError"

text \<open>
  \<^verbatim>\<open>v.some(speed => speed !== 0)\<close>: no value other than an array has a
  callable \<^verbatim>\<open>some\<close>.
\<close>

fun someNonZero :: "jsval \<Rightarrow> exn + bool" where
  "someNonZero (JArr xs) = Inr (list_ex (\<lambda>speed. speed \<noteq> JNum 0) xs)"
| "someNonZero v = Inl TypeError"

text \<open>
  The conversions behind \<^verbatim>\<open>nx * ny\<close>. Three operations of the runtime are
  parameters: the parsing of a string as a Number, the printing of a Number, and the
  rounded product of two Numbers neither of which is \<^verbatim>\<open>NaN\<close>.
\<close>

record runtime =
  StringToNumber :: "string \<Rightarrow> number"
  NumberToString :: "number \<Rightarrow> string"
  ieeeMultiply :: "number \<Rightarrow> number \<Rightarrow> number"

text \<open>
  \<^verbatim>\<open>ToString\<close>. An array is joined with commas, \<^verbatim>\<open>null\<close> and
  \<^verbatim>\<open>undefined\<close> elements printing as nothing. An object goes through
  \<^verbatim>\<open>OrdinaryToPrimitive\<close>: an own property \<^verbatim>\<open>toString\<close> of a parsed
  object is never callable and hides \<^verbatim>\<open>Object.prototype.toString\<close>, while
  \<^verbatim>\<open>valueOf\<close>, own or inherited, never yields a primitive; so the conversion
  throws when the object has a property \<^verbatim>\<open>toString\<close> and gives
  \<^verbatim>\<open>[object Object]\<close> otherwise.
\<close>

fun ToString :: "runtime \<Rightarrow> jsval \<Rightarrow> exn + string"
  and join :: "runtime \<Rightarrow> jsval list \<Rightarrow> exn + string" where
  "ToString rt JUndefined = Inr ''undefined''"
| "ToString rt JNull = Inr ''null''"
| "ToString rt (JBool b) = Inr (if b then ''true'' else ''false'')"
| "ToString rt (JNumber n) = Inr (NumberToString rt n)"
| "ToString rt (JStr s) = Inr s"
| "ToString rt (JArr xs) = join rt xs"
| "ToString rt (JObj ps) =
     (if ''toString'' \<in> fst ` set ps then Inl TypeError else Inr ''[object Object]'')"
| "join rt [] = Inr []"
| "join rt (x # xs) =
     (case (if x = JUndefined \<or> x = JNull then Inr [] else ToString rt x) of
        Inl e \<Rightarrow> Inl e
      | Inr s \<Rightarrow>
          (if xs = [] then Inr s
           else (case join rt xs of Inl e \<Rightarrow> Inl e | Inr t \<Rightarrow> Inr (s @ '','' @ t))))"

fun ToNumber :: "runtime \<Rightarrow> jsval \<Rightarrow> exn + number" where
  "ToNumber rt JUndefined = Inr NaN"
| "ToNumber rt JNull = Inr (Fin 0)"
| "ToNumber rt (JBool b) = Inr (Fin (if b then 1 else 0))"
| "ToNumber rt (JNumber n) = Inr n"
| "ToNumber rt (JStr s) = Inr (StringToNumber rt s)"
| "ToNumber rt v =
     (case ToString rt v of Inl e \<Rightarrow> Inl e | Inr s \<Rightarrow> Inr (StringToNumber rt s))"

definition multiply :: "runtime \<Rightarrow> number \<Rightarrow> number \<Rightarrow> number" where
  "multiply rt x y = (if x = NaN \<or> y = NaN then NaN else ieeeMultiply rt x y)"

text \<open>\<^verbatim>\<open>a * b\<close>: both operands are converted, the left one first.\<close>

definition times :: "runtime \<Rightarrow> jsval \<Rightarrow> jsval \<Rightarrow> exn + number" where
  "times rt a b =
     (case ToNumber rt a of
        Inl e \<Rightarrow> Inl e
      | Inr x \<Rightarrow> (case ToNumber rt b of Inl e \<Rightarrow> Inl e | Inr y \<Rightarrow> Inr (multiply rt x y)))"

text \<open>
  The values whose conversion to a Number throws: an object with a property
  \<^verbatim>\<open>toString\<close>, and an array that holds such a value at any depth.
\<close>

fun unconvertible :: "jsval \<Rightarrow> bool" where
  "unconvertible (JObj ps) = (''toString'' \<in> fst ` set ps)"
| "unconvertible (JArr xs) = (\<exists>x \<in> set xs. unconvertible x)"
| "unconvertible v = False"

text \<open>Decimal digits of an array index, as a property name.\<close>

fun decimal :: "nat \<Rightarrow> string" where
  "decimal n =
     (if n < 10 then [char_of (48 + n)]
      else decimal (n div 10) @ [char_of (48 + n mod 10)])"

text \<open>
  The own enumerable properties that the spread \<^verbatim>\<open>...v\<close> copies: those of
  an object, the elements of an array and the characters of a string under their
  indices, nothing for the other values.
\<close>

fun ownProps :: "jsval \<Rightarrow> (string \<times> jsval) list" where
  "ownProps (JObj ps) = ps"
| "ownProps (JArr xs) = zip (map decimal [0..<length xs]) xs"
| "ownProps (JStr s) = zip (map decimal [0..<length s]) (map (\<lambda>c. JStr [c]) s)"
| "ownProps v = []"


section \<open>fetchWindData\<close>

definition url :: string where
  "url = ''http://127.0.0.1:5000/api/wind''"

text \<open>
  The condition of line 35, evaluated from left to right with its short cuts;
  \<^verbatim>\<open>data[0].header\<close> throws when the element is \<^verbatim>\<open>null\<close>.
\<close>

definition invalidFormat :: "jsval \<Rightarrow> exn + bool" where
  "invalidFormat data =
     (case data of
        JArr [d0, d1] \<Rightarrow>
          (case property ''header'' d0 of
             Inl e \<Rightarrow> Inl e
           | Inr h0 \<Rightarrow>
               if \<not> truthy h0 then Inr True
               else (case property ''header'' d1 of
                  Inl e \<Rightarrow> Inl e
                | Inr h1 \<Rightarrow>
                    if \<not> truthy h1 then Inr True
                    else (case property ''data'' d0 of
                       Inl e \<Rightarrow> Inl e
                     | Inr a0 \<Rightarrow>
                         if \<not> isArray a0 then Inr True
                         else (case property ''data'' d1 of
                            Inl e \<Rightarrow> Inl e
                          | Inr a1 \<Rightarrow> Inr (\<not> isArray a1)))))
      | _ \<Rightarrow> Inr True)"

text \<open>
  Lines 17 to 41: the log line, the request and the body of the \<^verbatim>\<open>try\<close>,
  given the outcome of the request.
\<close>

definition tryFetch :: "nat \<Rightarrow> outcome \<Rightarrow> jsval comp" where
  "tryFetch attempt out =
     andThen (emit (Console LOG (AttemptFetching attempt url))) (\<lambda>_.
     andThen (emit (Fetch url)) (\<lambda>_.
       (case out of
          Rejected \<Rightarrow> throw NetworkError
        | Response status body \<Rightarrow>
            if \<not> ok status then throw (HttpError status)
            else
              andThen (lift body) (\<lambda>data.
              andThen (emit (Console LOG (ApiResponse data))) (\<lambda>_.
              andThen (lift (invalidFormat data)) (\<lambda>invalid.
                if invalid then
                  andThen (emit (Console ERROR UnexpectedFormat)) (\<lambda>_.
                  andThen (emit (Alert InvalidFormatAlert)) (\<lambda>_.
                  ret JNull))
                else ret data))))))"

text \<open>
  \<open>net i\<close> is the outcome of the request issued \<open>i\<close> requests from now; a retry
  sees the rest of the sequence. The result is the value the promise resolves to
  (\<open>JNull\<close> for \<^verbatim>\<open>null\<close>) and the trace of the whole call.
\<close>

function fetchWindData :: "(nat \<Rightarrow> outcome) \<Rightarrow> nat \<Rightarrow> nat \<Rightarrow> jsval \<times> event list" where
  "fetchWindData net attempt maxAttempts =
     (case tryFetch attempt (net 0) of
        (Inr v, es) \<Rightarrow> (v, es)
      | (Inl error, es) \<Rightarrow>
          if attempt < maxAttempts then
            (case fetchWindData (\<lambda>i. net (Suc i)) (attempt + 1) maxAttempts of
               (v, es') \<Rightarrow>
                 (v, es @ [Console ERROR (AttemptFailed attempt error),
                           Console LOG (Retrying (attempt + 1) maxAttempts),
                           Wait 2000] @ es'))
          else
            (JNull, es @ [Console ERROR (AttemptFailed attempt error),
                          Console ERROR (MaxRetriesReached error),
                          Alert FetchFailedAlert]))"
  by pat_completeness auto
termination
  by (relation "measure (\<lambda>(net, attempt, maxAttempts). maxAttempts - attempt)") auto

declare fetchWindData.simps [simp del]


section \<open>loadWindData\<close>

text \<open>Line 73: \<^verbatim>\<open>nx * ny\<close> for the two properties of the U header.\<close>

definition expected :: "runtime \<Rightarrow> jsval \<Rightarrow> exn + number" where
  "expected rt uHeader =
     (case property ''nx'' uHeader of
        Inl e \<Rightarrow> Inl e
      | Inr nx \<Rightarrow> (case property ''ny'' uHeader of Inl e \<Rightarrow> Inl e | Inr ny \<Rightarrow> times rt nx ny))"

text \<open>Line 84, with the short cut of \<^verbatim>\<open>||\<close>.\<close>

definition hasWindData :: "jsval \<Rightarrow> jsval \<Rightarrow> exn + bool" where
  "hasWindData uData vData =
     (case someNonZero uData of
        Inl e \<Rightarrow> Inl e
      | Inr u \<Rightarrow> if u then Inr True else someNonZero vData)"

text \<open>
  Lines 93 to 96 and 99 to 102: a new object with the properties the spread copies
  and \<^verbatim>\<open>parameterNumber\<close> set, in place when the header had one, at the end
  otherwise.
\<close>

definition tagged :: "jsval \<Rightarrow> real \<Rightarrow> jsval" where
  "tagged header n = JObj (AList.update ''parameterNumber'' (JNum n) (ownProps header))"

definition windData :: "jsval \<Rightarrow> jsval \<Rightarrow> jsval \<Rightarrow> jsval \<Rightarrow> jsval" where
  "windData uHeader uData vHeader vData =
     JArr [JObj [(''header'', tagged uHeader 2), (''data'', uData)],
           JObj [(''header'', tagged vHeader 3), (''data'', vData)]]"

text \<open>Lines 61 to 63: the two components and their parts.\<close>

definition components :: "jsval \<Rightarrow> exn + (jsval \<times> jsval \<times> jsval \<times> jsval)" where
  "components data =
     (case destructure2 data of
        Inl e \<Rightarrow> Inl e
      | Inr (uComponent, vComponent) \<Rightarrow>
          (case property ''header'' uComponent of
             Inl e \<Rightarrow> Inl e
           | Inr uHeader \<Rightarrow>
               (case property ''data'' uComponent of
                  Inl e \<Rightarrow> Inl e
                | Inr uData \<Rightarrow>
                    (case property ''header'' vComponent of
                       Inl e \<Rightarrow> Inl e
                     | Inr vHeader \<Rightarrow>
                         (case property ''data'' vComponent of
                            Inl e \<Rightarrow> Inl e
                          | Inr vData \<Rightarrow> Inr (uHeader, uData, vHeader, vData))))))"

text \<open>Lines 61 to 141, for the value that \<open>fetchWindData\<close> returned.\<close>

definition display :: "runtime \<Rightarrow> jsval \<Rightarrow> unit comp" where
  "display rt data =
     andThen (lift (components data)) (\<lambda>(uHeader, uData, vHeader, vData).
     andThen (emit (Console LOG (UComponentHeader uHeader))) (\<lambda>_.
     andThen (emit (Console LOG (VComponentHeader vHeader))) (\<lambda>_.
     andThen (lift (lengthOf uData)) (\<lambda>uLength.
     andThen (emit (Console LOG (UDataLength uLength))) (\<lambda>_.
     andThen (lift (lengthOf vData)) (\<lambda>vLength.
     andThen (emit (Console LOG (VDataLength vLength))) (\<lambda>_.
     andThen (lift (expected rt uHeader)) (\<lambda>nxny.
       if strictNeq uLength nxny \<or> strictNeq vLength nxny then
         andThen (emit (Console ERROR (DataLengthMismatch uLength vLength nxny))) (\<lambda>_.
         emit (Alert LengthMismatchAlert))
       else
         andThen (lift (hasWindData uData vData)) (\<lambda>has.
           if \<not> has then
             andThen (emit (Console WARN NoMeaningfulWindData)) (\<lambda>_.
             emit (Alert NoDataAlert))
           else
             andThen (emit (VelocityLayer (windData uHeader uData vHeader vData))) (\<lambda>_.
             andThen (emit AddTo) (\<lambda>_.
             emit (Console LOG LoadedSuccessfully))))))))))))"

definition loadWindData :: "runtime \<Rightarrow> (nat \<Rightarrow> outcome) \<Rightarrow> unit comp" where
  "loadWindData rt net =
     (case fetchWindData net 1 3 of
        (data, es) \<Rightarrow>
          if \<not> truthy data then (Inr (), es)
          else (case display rt data of (r, es') \<Rightarrow> (r, es @ es')))"

section \<open>Lines 92 to 104 with the store explicit\<close>

text \<open>
  Objects and arrays are cells of a store and a value refers to its cell by address,
  so that sharing and mutation can be told apart. An object literal and an array
  literal allocate a new cell; the spread reads the properties of the header it
  copies; \<^verbatim>\<open>data: uData\<close> stores the reference it was given.
\<close>

datatype hval = HUndefined | HNull | HBool bool | HNumber number | HStr string | HRef nat

abbreviation HNum :: "real \<Rightarrow> hval" where
  "HNum x \<equiv> HNumber (Fin x)"

datatype cell = HArray "hval list" | HObject "(string \<times> hval) list"

type_synonym store = "cell list"

definition alloc :: "cell \<Rightarrow> store \<Rightarrow> hval \<times> store" where
  "alloc c h = (HRef (length h), h @ [c])"

fun ownPropsH :: "store \<Rightarrow> hval \<Rightarrow> (string \<times> hval) list" where
  "ownPropsH h (HRef a) =
     (if a < length h then
        (case h ! a of
           HObject ps \<Rightarrow> ps
         | HArray xs \<Rightarrow> zip (map decimal [0..<length xs]) xs)
      else [])"
| "ownPropsH h (HStr s) = zip (map decimal [0..<length s]) (map (\<lambda>c. HStr [c]) s)"
| "ownPropsH h v = []"

definition taggedH :: "store \<Rightarrow> hval \<Rightarrow> real \<Rightarrow> cell" where
  "taggedH h header n = HObject (AList.update ''parameterNumber'' (HNum n) (ownPropsH h header))"

definition windDataH :: "store \<Rightarrow> hval \<Rightarrow> hval \<Rightarrow> hval \<Rightarrow> hval \<Rightarrow> hval \<times> store" where
  "windDataH h uHeader uData vHeader vData =
     (case alloc (taggedH h uHeader 2) h of (uTagged, h1) \<Rightarrow>
      case alloc (HObject [(''header'', uTagged), (''data'', uData)]) h1 of (u, h2) \<Rightarrow>
      case alloc (taggedH h2 vHeader 3) h2 of (vTagged, h3) \<Rightarrow>
      case alloc (HObject [(''header'', vTagged), (''data'', vData)]) h3 of (v, h4) \<Rightarrow>
      alloc (HArray [u, v]) h4)"

text \<open>
  \<open>rep h v j\<close>: in the store \<open>h\<close>, \<open>v\<close> stands for the value \<open>j\<close>. The
  elements of an array cell and the properties of an object cell are read first.
\<close>

fun elements :: "store \<Rightarrow> hval \<Rightarrow> hval list option" where
  "elements h (HRef a) =
     (if a < length h then (case h ! a of HArray xs \<Rightarrow> Some xs | HObject ps \<Rightarrow> None) else None)"
| "elements h v = None"

fun properties :: "store \<Rightarrow> hval \<Rightarrow> (string \<times> hval) list option" where
  "properties h (HRef a) =
     (if a < length h then (case h ! a of HObject ps \<Rightarrow> Some ps | HArray xs \<Rightarrow> None) else None)"
| "properties h v = None"

function rep :: "store \<Rightarrow> hval \<Rightarrow> jsval \<Rightarrow> bool" where
  "rep h v JUndefined = (v = HUndefined)"
| "rep h v JNull = (v = HNull)"
| "rep h v (JBool b) = (v = HBool b)"
| "rep h v (JNumber n) = (v = HNumber n)"
| "rep h v (JStr s) = (v = HStr s)"
| "rep h v (JArr js) =
     (case elements h v of
        None \<Rightarrow> False
      | Some xs \<Rightarrow> length xs = length js \<and> list_all (\<lambda>(x, j). rep h x j) (zip xs js))"
| "rep h v (JObj qs) =
     (case properties h v of
        None \<Rightarrow> False
      | Some ps \<Rightarrow> map fst ps = map fst qs
          \<and> list_all (\<lambda>(x, j). rep h x j) (zip (map snd ps) (map snd qs)))"
  by pat_completeness auto
termination
proof (relation "measure (\<lambda>(h, v, j). size j)")
  fix h :: store and v :: hval and js :: "jsval list" and x2 :: "hval list"
    and z :: "hval \<times> jsval" and x y
  assume "z \<in> set (zip x2 js)" and "(x, y) = z"
  then have "y \<in> set js"
    by (auto dest: set_zip_rightD)
  then have "size y \<le> size_list size js"
    by (rule size_list_estimation') simp
  then show "((h, x, y), h, v, JArr js) \<in> measure (\<lambda>(h, v, j). size j)"
    by simp
next
  fix h :: store and v :: hval and qs :: "(string \<times> jsval) list"
    and x2 :: "(string \<times> hval) list" and z :: "hval \<times> jsval" and x y
  assume "z \<in> set (zip (map snd x2) (map snd qs))" and "(x, y) = z"
  then have "y \<in> snd ` set qs"
    by (auto dest: set_zip_rightD)
  then obtain k where "(k, y) \<in> set qs"
    by auto
  then have "size y \<le> size_list (size_prod (\<lambda>_. 0) size) qs"
    by (rule size_list_estimation') simp
  then show "((h, x, y), h, v, JObj qs) \<in> measure (\<lambda>(h, v, j). size j)"
    by simp
qed simp


section \<open>Reading a trace\<close>

fun isConsole :: "event \<Rightarrow> bool" where
  "isConsole (Console l m) = True"
| "isConsole ev = False"

definition withoutConsole :: "event list \<Rightarrow> event list" where
  "withoutConsole es = filter (\<lambda>ev. \<not> isConsole ev) es"

fun isRendering :: "event \<Rightarrow> bool" where
  "isRendering (VelocityLayer w) = True"
| "isRendering AddTo = True"
| "isRendering ev = False"

definition rendering :: "event list \<Rightarrow> event list" where
  "rendering es = filter isRendering es"

text \<open>The four console lines of lines 66 to 69, for data that are arrays.\<close>

definition diagnostics :: "jsval \<Rightarrow> jsval list \<Rightarrow> jsval \<Rightarrow> jsval list \<Rightarrow> event list" where
  "diagnostics uHeader uData vHeader vData =
     [Console LOG (UComponentHeader uHeader),
      Console LOG (VComponentHeader vHeader),
      Console LOG (UDataLength (JNum (real (length uData)))),
      Console LOG (VDataLength (JNum (real (length vData))))]"

text \<open>A request that fails in transport or with a status outside 200 to 299.\<close>

fun transportFailure :: "outcome \<Rightarrow> bool" where
  "transportFailure Rejected = True"
| "transportFailure (Response status body) = (\<not> ok status)"

text \<open>
  A request after which the \<^verbatim>\<open>catch\<close> of line 42 runs: it is rejected, its
  status is outside 200 to 299, its body cannot be read, or the check of line 35
  throws on it.
\<close>

fun retried :: "outcome \<Rightarrow> bool" where
  "retried Rejected = True"
| "retried (Response status body) =
     (if \<not> ok status then True
      else (case body of
              Inl e \<Rightarrow> True
            | Inr data \<Rightarrow> (case invalidFormat data of Inl e \<Rightarrow> True | Inr invalid \<Rightarrow> False)))"


section \<open>Example inputs\<close>

text \<open>A server that answers every request in the same way.\<close>

definition always :: "outcome \<Rightarrow> nat \<Rightarrow> outcome" where
  "always out i = out"

text \<open>A server that answers the next request with \<open>out\<close> and then goes on as \<open>net\<close>.\<close>

definition after :: "outcome \<Rightarrow> (nat \<Rightarrow> outcome) \<Rightarrow> nat \<Rightarrow> outcome" where
  "after out net i = (case i of 0 \<Rightarrow> out | Suc j \<Rightarrow> net j)"

text \<open>
  A runtime for the examples, which convert no string and multiply small integers
  only: there the product is exact in every runtime.
\<close>

definition exampleRuntime :: runtime where
  "exampleRuntime =
     \<lparr>StringToNumber = (\<lambda>s. NaN),
      NumberToString = (\<lambda>x. []),
      ieeeMultiply = (\<lambda>x y. case (x, y) of (Fin a, Fin b) \<Rightarrow> Fin (a * b) | _ \<Rightarrow> NaN)\<rparr>"

text \<open>A component with the given header properties and numeric samples.\<close>

definition component :: "(string \<times> jsval) list \<Rightarrow> real list \<Rightarrow> jsval" where
  "component header samples =
     JObj [(''header'', JObj header), (''data'', JArr (map JNum samples))]"

definition grid2x2 :: "(string \<times> jsval) list" where
  "grid2x2 = [(''nx'', JNum 2), (''ny'', JNum 2)]"

text \<open>
  The end-to-end scenario: both headers declare a 2 by 2 grid, the U samples are
  1, 0, -1, 2 and the V samples 0, 1, 1, -2.
\<close>

definition scenario :: jsval where
  "scenario = JArr [component grid2x2 [1, 0, -1, 2], component grid2x2 [0, 1, 1, -2]]"


text \<open>The header declares 2 by 2 but the U data has three samples.\<close>

definition mismatched :: jsval where
  "mismatched = JArr [component grid2x2 [1, 0, 2], component grid2x2 [0, 1, 1, -2]]"

text \<open>Every sample is zero.\<close>

definition calm :: jsval where
  "calm = JArr [component grid2x2 [0, 0, 0, 0], component grid2x2 [0, 0, 0, 0]]"

text \<open>No sample at all, and a header whose product is zero.\<close>

definition emptyGrid :: jsval where
  "emptyGrid = JArr [component [(''nx'', JNum 0), (''ny'', JNum 5)] [], component [] []]"

text \<open>The trace of a first attempt that returns the body \<open>data\<close>.\<close>

definition firstAttempt :: "jsval \<Rightarrow> event list" where
  "firstAttempt data =
     [Console LOG (AttemptFetching 1 url), Fetch url, Console LOG (ApiResponse data)]"


text \<open>Both elements are \<^verbatim>\<open>null\<close>.\<close>

definition nullElements :: jsval where
  "nullElements = JArr [JNull, JNull]"

text \<open>The U header has an object with a property \<^verbatim>\<open>toString\<close> as \<^verbatim>\<open>nx\<close>.\<close>

definition opaqueDimension :: jsval where
  "opaqueDimension =
     JArr [component [(''nx'', JObj [(''toString'', JNum 0)]), (''ny'', JNum 1)] [1],
           component [] [1]]"

text \<open>The U header has no \<^verbatim>\<open>ny\<close>.\<close>

definition noNy :: jsval where
  "noNy = JArr [component [(''nx'', JNum 2)] [1, 2], component [] [3, 4]]"

text \<open>
  The U header has no \<^verbatim>\<open>nx\<close>, and an object with a property
  \<^verbatim>\<open>toString\<close> as \<^verbatim>\<open>ny\<close>.
\<close>

definition noNxOpaqueNy :: jsval where
  "noNxOpaqueNy =
     JArr [component [(''ny'', JObj [(''toString'', JNull)])] [1], component [] [1]]"

text \<open>
  A store with a U header that comes with a \<^verbatim>\<open>parameterNumber\<close> of its own,
  the U data, a V header and the V data, at the addresses 0 to 3.
\<close>

definition exampleStore :: store where
  "exampleStore =
     [HObject [(''nx'', HNum 2), (''parameterNumber'', HNum 7), (''ny'', HNum 1)],
      HArray [HNum 1, HNum 0],
      HObject [(''nx'', HNum 2), (''ny'', HNum 1)],
      HArray [HNum 0, HNum 1]]"

section \<open>Facts about the operations\<close>

lemmas comp_defs = andThen_def ret_def throw_def lift_def emit_def

lemma property_Inr_truthy:
  "property k d = Inr h \<Longrightarrow> truthy h \<Longrightarrow> \<exists>ps. d = JObj ps \<and> map_of ps k = Some h"
  by (cases d) (auto split: option.splits)

lemma property_Inr_array:
  "property k d = Inr h \<Longrightarrow> isArray h \<Longrightarrow> \<exists>ps. d = JObj ps \<and> map_of ps k = Some h"
  by (cases d) (auto split: option.splits)

lemma isArray_iff: "isArray v \<longleftrightarrow> (\<exists>xs. v = JArr xs)"
  by (cases v) auto

text \<open>
  The check of line 35 lets a body through exactly when it is an array of two objects,
  each with a truthy \<^verbatim>\<open>header\<close> and an array as \<^verbatim>\<open>data\<close>.
\<close>

lemma invalidFormat_False:
  "invalidFormat data = Inr False \<longleftrightarrow>
   (\<exists>u v uHeader us vHeader vs. data = JArr [JObj u, JObj v]
      \<and> map_of u ''header'' = Some uHeader \<and> truthy uHeader
      \<and> map_of v ''header'' = Some vHeader \<and> truthy vHeader
      \<and> map_of u ''data'' = Some (JArr us) \<and> map_of v ''data'' = Some (JArr vs))"
  (is "?L \<longleftrightarrow> ?R")
proof
  assume ?R
  then show ?L by (auto simp: invalidFormat_def)
next
  assume L: ?L
  then obtain d0 d1 where data: "data = JArr [d0, d1]"
    by (auto simp: invalidFormat_def split: jsval.splits list.splits)
  from L data obtain h0 h1 a0 a1 where
    p: "property ''header'' d0 = Inr h0" "truthy h0"
       "property ''header'' d1 = Inr h1" "truthy h1"
       "property ''data'' d0 = Inr a0" "isArray a0"
       "property ''data'' d1 = Inr a1" "isArray a1"
    by (auto simp: invalidFormat_def split: sum.splits if_splits)
  from p(1,2) obtain u where u: "d0 = JObj u" "map_of u ''header'' = Some h0"
    using property_Inr_truthy by blast
  from p(3,4) obtain v where v: "d1 = JObj v" "map_of v ''header'' = Some h1"
    using property_Inr_truthy by blast
  from p(5,6) u have "map_of u ''data'' = Some a0"
    using property_Inr_array by fastforce
  moreover from p(7,8) v have "map_of v ''data'' = Some a1"
    using property_Inr_array by fastforce
  ultimately show ?R using data u v p(2,4,6,8) by (auto simp: isArray_iff)
qed


lemma property_throws:
  "property k v = Inl e \<longleftrightarrow> e = TypeError \<and> (v = JUndefined \<or> v = JNull)"
  by (cases v) auto

text \<open>The check of line 35 throws exactly on a \<^verbatim>\<open>null\<close> element that it reads.\<close>

lemma invalidFormat_throws:
  "invalidFormat data = Inl e \<longleftrightarrow>
   e = TypeError \<and>
   (\<exists>d0 d1. data = JArr [d0, d1] \<and>
      (d0 = JUndefined \<or> d0 = JNull \<or>
       ((\<exists>h. property ''header'' d0 = Inr h \<and> truthy h) \<and> (d1 = JUndefined \<or> d1 = JNull))))"
  (is "?L \<longleftrightarrow> ?R")
proof
  assume ?R
  then show ?L
    by (auto simp: invalidFormat_def)
next
  assume L: ?L
  then obtain d0 d1 where data: "data = JArr [d0, d1]"
    by (auto simp: invalidFormat_def split: jsval.splits list.splits)
  have same: "property k d = Inr h \<Longrightarrow> property k' d \<noteq> Inl e'" for k k' d h e'
    by (cases d) auto
  from L data show ?R
    by (auto simp: invalidFormat_def property_throws split: sum.splits if_splits dest: same)
qed

text \<open>The conversions throw a \<open>TypeError\<close>, and exactly on the unconvertible values.\<close>

lemma ToString_throws_all:
  "\<forall>e. ToString rt v = Inl e \<longleftrightarrow> e = TypeError \<and> unconvertible v"
  "\<forall>e. join rt xs = Inl e \<longleftrightarrow> e = TypeError \<and> (\<exists>x \<in> set xs. unconvertible x)"
  by (induction rt v and rt xs rule: ToString_join.induct)
     (auto split: sum.splits if_splits)

lemma join_throws:
  "join rt xs = Inl e \<longleftrightarrow> e = TypeError \<and> (\<exists>x \<in> set xs. unconvertible x)"
  using ToString_throws_all(2) by blast

lemma ToNumber_throws:
  "ToNumber rt v = Inl e \<longleftrightarrow> e = TypeError \<and> unconvertible v"
proof (cases v)
  case (JArr xs)
  then show ?thesis
    using join_throws[of rt xs e] by (auto split: sum.splits)
next
  case (JObj ps)
  then show ?thesis by (auto split: sum.splits)
qed simp_all

lemma ToNumber_returns:
  "ToNumber rt v = Inr n \<Longrightarrow> \<not> unconvertible v"
  using ToNumber_throws[of rt v TypeError] by auto

lemma times_throws:
  "times rt a b = Inl e \<longleftrightarrow> e = TypeError \<and> (unconvertible a \<or> unconvertible b)"
  by (auto simp: times_def ToNumber_throws split: sum.splits dest: ToNumber_returns)

lemma times_undefined:
  "times rt JUndefined b = Inr n \<Longrightarrow> n = NaN"
  "times rt a JUndefined = Inr n \<Longrightarrow> n = NaN"
  by (auto simp: times_def multiply_def split: sum.splits)

lemma expected_cases:
  "truthy uHeader \<Longrightarrow>
   \<exists>nx ny. property ''nx'' uHeader = Inr nx \<and> property ''ny'' uHeader = Inr ny
     \<and> expected rt uHeader = times rt nx ny"
  by (cases uHeader) (auto simp: expected_def)

section \<open>Facts about fetchWindData\<close>

lemma tryFetch_transportFailure:
  "transportFailure out \<Longrightarrow>
   \<exists>e. tryFetch attempt out = (Inl e, [Console LOG (AttemptFetching attempt url), Fetch url])"
  by (cases out) (simp_all add: tryFetch_def comp_defs)

text \<open>
  The three ways one attempt ends: an exception after the request, the format error
  with its alert, or a body that passed the check.
\<close>

lemma tryFetch_cases:
  "tryFetch attempt out = (r, es) \<Longrightarrow>
     (\<exists>e. r = Inl e \<and> withoutConsole es = [Fetch url])
   \<or> (r = Inr JNull \<and> (\<exists>es0. es = es0 @ [Console ERROR UnexpectedFormat, Alert InvalidFormatAlert])
        \<and> withoutConsole es = [Fetch url, Alert InvalidFormatAlert])
   \<or> (\<exists>status data. out = Response status (Inr data) \<and> ok status \<and> invalidFormat data = Inr False
        \<and> r = Inr data
        \<and> es = [Console LOG (AttemptFetching attempt url), Fetch url, Console LOG (ApiResponse data)])"
  by (cases out)
     (auto simp: tryFetch_def comp_defs withoutConsole_def split: sum.splits if_splits)

lemma tryFetch_quiet:
  "tryFetch attempt out = (r, es) \<Longrightarrow>
   rendering es = [] \<and> Alert NoDataAlert \<notin> set es \<and> Alert LengthMismatchAlert \<notin> set es
   \<and> Console WARN NoMeaningfulWindData \<notin> set es"
  by (cases out)
     (auto simp: tryFetch_def comp_defs rendering_def split: sum.splits if_splits)

text \<open>Whatever \<open>fetchWindData\<close> returns is \<^verbatim>\<open>null\<close> or passed the check.\<close>

lemma fetch_shape:
  "fetchWindData net attempt maxAttempts = (data, es) \<Longrightarrow>
   data = JNull \<or> invalidFormat data = Inr False"
proof (induction net attempt maxAttempts arbitrary: data es rule: fetchWindData.induct)
  case (1 net attempt maxAttempts)
  obtain r es0 where t: "tryFetch attempt (net 0) = (r, es0)"
    by (cases "tryFetch attempt (net 0)")
  show ?case
  proof (cases r)
    case (Inr v)
    with t "1.prems" have "data = v"
      by (simp add: fetchWindData.simps)
    with tryFetch_cases[OF t] Inr show ?thesis by auto
  next
    case (Inl e)
    show ?thesis
    proof (cases "attempt < maxAttempts")
      case True
      obtain v es' where rec: "fetchWindData (\<lambda>i. net (Suc i)) (attempt + 1) maxAttempts = (v, es')"
        by (cases "fetchWindData (\<lambda>i. net (Suc i)) (attempt + 1) maxAttempts")
      with t Inl True "1.prems" have "data = v"
        by (simp add: fetchWindData.simps[of net])
      with "1.IH"[OF t[symmetric] Inl True rec] show ?thesis by simp
    next
      case False
      with t Inl "1.prems" show ?thesis
        by (simp add: fetchWindData.simps[of net])
    qed
  qed
qed

text \<open>The trace of \<open>fetchWindData\<close> holds nothing of what \<open>loadWindData\<close> does after it.\<close>

lemma fetch_quiet:
  "fetchWindData net attempt maxAttempts = (data, es) \<Longrightarrow>
   rendering es = [] \<and> Alert NoDataAlert \<notin> set es \<and> Alert LengthMismatchAlert \<notin> set es
   \<and> Console WARN NoMeaningfulWindData \<notin> set es"
proof (induction net attempt maxAttempts arbitrary: data es rule: fetchWindData.induct)
  case (1 net attempt maxAttempts)
  obtain r es0 where t: "tryFetch attempt (net 0) = (r, es0)"
    by (cases "tryFetch attempt (net 0)")
  note q = tryFetch_quiet[OF t]
  show ?case
  proof (cases r)
    case (Inr v)
    with t "1.prems" have "es = es0"
      by (simp add: fetchWindData.simps)
    with q show ?thesis by simp
  next
    case (Inl e)
    show ?thesis
    proof (cases "attempt < maxAttempts")
      case True
      obtain v es' where rec: "fetchWindData (\<lambda>i. net (Suc i)) (attempt + 1) maxAttempts = (v, es')"
        by (cases "fetchWindData (\<lambda>i. net (Suc i)) (attempt + 1) maxAttempts")
      with t Inl True "1.prems" have
        "es = es0 @ [Console ERROR (AttemptFailed attempt e),
                     Console LOG (Retrying (attempt + 1) maxAttempts), Wait 2000] @ es'"
        by (simp add: fetchWindData.simps[of net])
      with "1.IH"[OF t[symmetric] Inl True rec] q show ?thesis
        by (simp add: rendering_def)
    next
      case False
      with t Inl "1.prems" q show ?thesis
        by (auto simp: fetchWindData.simps[of net] rendering_def)
    qed
  qed
qed

text \<open>
  When every request fails in transport or by its status, for any starting attempt and
  any bound: one request per attempt up to the bound, the delay after each but the
  last, then the alert.
\<close>

lemma fetch_all_fail:
  "(\<forall>i \<le> maxAttempts - attempt. transportFailure (net i)) \<Longrightarrow>
   fst (fetchWindData net attempt maxAttempts) = JNull \<and>
   withoutConsole (snd (fetchWindData net attempt maxAttempts)) =
     concat (replicate (maxAttempts - attempt) [Fetch url, Wait 2000])
     @ [Fetch url, Alert FetchFailedAlert]"
proof (induction net attempt maxAttempts rule: fetchWindData.induct)
  case (1 net attempt maxAttempts)
  from "1.prems" have "transportFailure (net 0)" by simp
  then obtain e where
    t: "tryFetch attempt (net 0) = (Inl e, [Console LOG (AttemptFetching attempt url), Fetch url])"
    using tryFetch_transportFailure by blast
  show ?case
  proof (cases "attempt < maxAttempts")
    case True
    then have n: "maxAttempts - attempt = Suc (maxAttempts - (attempt + 1))" by simp
    have "\<forall>i \<le> maxAttempts - (attempt + 1). transportFailure (net (Suc i))"
      using "1.prems" True by auto
    then have ih:
      "fst (fetchWindData (\<lambda>i. net (Suc i)) (attempt + 1) maxAttempts) = JNull \<and>
       withoutConsole (snd (fetchWindData (\<lambda>i. net (Suc i)) (attempt + 1) maxAttempts)) =
         concat (replicate (maxAttempts - (attempt + 1)) [Fetch url, Wait 2000])
         @ [Fetch url, Alert FetchFailedAlert]"
      using "1.IH"[OF t[symmetric] refl True] by simp
    show ?thesis
      unfolding n using t True ih
      by (auto simp: fetchWindData.simps[of net] withoutConsole_def split: prod.splits)
  next
    case False
    with t show ?thesis
      by (simp add: fetchWindData.simps[of net] withoutConsole_def)
  qed
qed


lemma tryFetch_retried:
  "retried out \<longleftrightarrow> (\<exists>e es. tryFetch attempt out = (Inl e, es))"
  by (cases out) (auto simp: tryFetch_def comp_defs split: sum.splits if_splits)

lemma transportFailure_retried: "transportFailure out \<Longrightarrow> retried out"
  by (cases out) auto

text \<open>
  A body that passes the check of line 35 is returned from whichever request of the
  call it answers: \<open>k\<close> requests end in the \<^verbatim>\<open>catch\<close>, each followed by the
  delay, and the next one, still within the bound, brings the body.
\<close>

lemma fetch_after_retries:
  assumes "\<forall>i < k. retried (net i)"
    and "k = 0 \<or> attempt + k \<le> maxAttempts"
    and "net k = Response status (Inr data)" and "ok status"
    and "invalidFormat data = Inr False"
  shows "\<exists>es0. fetchWindData net attempt maxAttempts =
      (data, es0 @ [Console LOG (AttemptFetching (attempt + k) url), Fetch url,
                    Console LOG (ApiResponse data)])
    \<and> withoutConsole es0 = concat (replicate k [Fetch url, Wait 2000])
    \<and> (k = 0 \<longrightarrow> es0 = [])"
  using assms
proof (induction k arbitrary: net attempt)
  case 0
  then show ?case
    by (simp add: fetchWindData.simps[of net] tryFetch_def comp_defs withoutConsole_def)
next
  case (Suc k)
  from Suc.prems(1) have "retried (net 0)" by simp
  then obtain e es1 where t: "tryFetch attempt (net 0) = (Inl e, es1)"
    using tryFetch_retried by blast
  with tryFetch_cases[OF t] have w: "withoutConsole es1 = [Fetch url]" by auto
  from Suc.prems(2) have lt: "attempt < maxAttempts" by simp
  have "\<forall>i < k. retried (net (Suc i))"
    using Suc.prems(1) by simp
  moreover have "k = 0 \<or> attempt + 1 + k \<le> maxAttempts"
    using Suc.prems(2) by simp
  ultimately obtain es0 where
    r: "fetchWindData (\<lambda>i. net (Suc i)) (attempt + 1) maxAttempts =
        (data, es0 @ [Console LOG (AttemptFetching (attempt + 1 + k) url), Fetch url,
                      Console LOG (ApiResponse data)])"
    and w0: "withoutConsole es0 = concat (replicate k [Fetch url, Wait 2000])"
    using Suc.IH[of "\<lambda>i. net (Suc i)" "attempt + 1"] Suc.prems(3,4,5) by blast
  let ?pre = "es1 @ [Console ERROR (AttemptFailed attempt e),
                     Console LOG (Retrying (attempt + 1) maxAttempts), Wait 2000] @ es0"
  have "fetchWindData net attempt maxAttempts =
      (data, ?pre @ [Console LOG (AttemptFetching (attempt + Suc k) url), Fetch url,
                     Console LOG (ApiResponse data)])"
    using t lt r by (simp add: fetchWindData.simps[of net])
  moreover have "withoutConsole ?pre = concat (replicate (Suc k) [Fetch url, Wait 2000])"
    using w w0 by (simp add: withoutConsole_def)
  ultimately show ?case by blast
qed

text \<open>A \<^verbatim>\<open>null\<close> result comes right after an error line and an alert.\<close>

lemma tryFetch_null:
  "tryFetch attempt out = (Inr JNull, es) \<Longrightarrow>
   \<exists>es0. es = es0 @ [Console ERROR UnexpectedFormat, Alert InvalidFormatAlert]"
  using tryFetch_cases[of attempt out "Inr JNull" es]
  by (auto simp: invalidFormat_def)

lemma fetch_null_alert:
  "fetchWindData net attempt maxAttempts = (JNull, es) \<Longrightarrow>
   \<exists>es0 m a. es = es0 @ [Console ERROR m, Alert a]"
proof (induction net attempt maxAttempts arbitrary: es rule: fetchWindData.induct)
  case (1 net attempt maxAttempts)
  obtain r es0 where t: "tryFetch attempt (net 0) = (r, es0)"
    by (cases "tryFetch attempt (net 0)")
  show ?case
  proof (cases r)
    case (Inr v)
    with t "1.prems" have "v = JNull" "es = es0"
      by (simp_all add: fetchWindData.simps)
    with t Inr show ?thesis
      using tryFetch_null by blast
  next
    case (Inl e)
    show ?thesis
    proof (cases "attempt < maxAttempts")
      case True
      obtain v es' where rec: "fetchWindData (\<lambda>i. net (Suc i)) (attempt + 1) maxAttempts = (v, es')"
        by (cases "fetchWindData (\<lambda>i. net (Suc i)) (attempt + 1) maxAttempts")
      with t Inl True "1.prems" have v: "v = JNull" and
        es: "es = es0 @ [Console ERROR (AttemptFailed attempt e),
                     Console LOG (Retrying (attempt + 1) maxAttempts), Wait 2000] @ es'"
        by (simp_all add: fetchWindData.simps[of net])
      from "1.IH"[OF t[symmetric] Inl True rec[unfolded v]]
      obtain es1 m a where "es' = es1 @ [Console ERROR m, Alert a]" by blast
      with es have "es = (es0 @ [Console ERROR (AttemptFailed attempt e),
                     Console LOG (Retrying (attempt + 1) maxAttempts), Wait 2000] @ es1)
                     @ [Console ERROR m, Alert a]"
        by simp
      then show ?thesis by blast
    next
      case False
      with t Inl "1.prems" have
        "es = (es0 @ [Console ERROR (AttemptFailed attempt e)])
              @ [Console ERROR (MaxRetriesReached e), Alert FetchFailedAlert]"
        by (simp add: fetchWindData.simps[of net])
      then show ?thesis by blast
    qed
  qed
qed

text \<open>
  A body that fails the check of line 35 without an exception: \<^verbatim>\<open>null\<close> at
  once, after one request and one alert.
\<close>

lemma format_error_returns_null:
  assumes "net 0 = Response status (Inr data)" and "ok status"
    and "invalidFormat data = Inr True"
  shows "fetchWindData net attempt maxAttempts =
    (JNull,
     [Console LOG (AttemptFetching attempt url), Fetch url, Console LOG (ApiResponse data),
      Console ERROR UnexpectedFormat, Alert InvalidFormatAlert])"
  using assms
  by (simp add: fetchWindData.simps[of net] tryFetch_def comp_defs)

section \<open>Facts about loadWindData\<close>

lemma rendering_diagnostics [simp]: "rendering (diagnostics uHeader us vHeader vs) = []"
  by (simp add: rendering_def diagnostics_def)

lemma rendering_append [simp]: "rendering (xs @ ys) = rendering xs @ rendering ys"
  by (simp add: rendering_def)

lemma rendering_Nil [simp]: "rendering [] = []"
  by (simp add: rendering_def)

lemma rendering_Cons [simp]:
  "rendering (ev # es) = (if isRendering ev then ev # rendering es else rendering es)"
  by (simp add: rendering_def)

lemma components_arrays:
  "components data = Inr (uHeader, JArr us, vHeader, JArr vs) \<Longrightarrow> truthy data"
  by (cases data rule: destructure2.cases) (auto simp: components_def split: sum.splits)

text \<open>The four ways lines 61 to 141 end on such a body.\<close>

lemma display_arrays:
  assumes "components data = Inr (uHeader, JArr us, vHeader, JArr vs)"
  shows "display rt data =
    (case expected rt uHeader of
       Inl e \<Rightarrow> (Inl e, diagnostics uHeader us vHeader vs)
     | Inr nxny \<Rightarrow>
         (Inr (), diagnostics uHeader us vHeader vs @
           (if nxny \<noteq> Fin (real (length us)) \<or> nxny \<noteq> Fin (real (length vs)) then
              [Console ERROR
                 (DataLengthMismatch (JNum (real (length us))) (JNum (real (length vs))) nxny),
               Alert LengthMismatchAlert]
            else if \<forall>s \<in> set us \<union> set vs. s = JNum 0 then
              [Console WARN NoMeaningfulWindData, Alert NoDataAlert]
            else
              [VelocityLayer (windData uHeader (JArr us) vHeader (JArr vs)), AddTo,
               Console LOG LoadedSuccessfully])))"
  using assms
  by (auto simp: display_def comp_defs diagnostics_def hasWindData_def list_ex_iff
           split: sum.splits)

lemma loadWindData_arrays:
  assumes "fetchWindData net 1 3 = (data, es)"
    and "components data = Inr (uHeader, JArr us, vHeader, JArr vs)"
  shows "loadWindData rt net = (fst (display rt data), es @ snd (display rt data))"
  using assms components_arrays[OF assms(2)]
  by (simp add: loadWindData_def split: prod.splits)


text \<open>
  A body that passed the check of line 35 has its four parts, with truthy headers and
  arrays as data.
\<close>

lemma valid_components:
  "invalidFormat data = Inr False \<Longrightarrow>
   \<exists>uHeader us vHeader vs. components data = Inr (uHeader, JArr us, vHeader, JArr vs)
      \<and> truthy uHeader \<and> truthy vHeader"
  by (auto simp: invalidFormat_False components_def)

lemma loadWindData_null:
  "fetchWindData net 1 3 = (JNull, es) \<Longrightarrow> loadWindData rt net = (Inr (), es)"
  by (simp add: loadWindData_def)


section \<open>Facts about the store\<close>

lemma list_all2_zip:
  "list_all2 P xs ys \<longleftrightarrow> length xs = length ys \<and> list_all (\<lambda>(x, y). P x y) (zip xs ys)"
  by (auto simp: list_all2_iff list_all_iff)

lemma list_all2_pairs:
  "list_all2 (rel_prod (=) P) ps qs \<longleftrightarrow>
   map fst ps = map fst qs \<and> list_all (\<lambda>(x, y). P x y) (zip (map snd ps) (map snd qs))"
proof (induction ps arbitrary: qs)
  case Nil
  then show ?case by auto
next
  case (Cons p ps)
  then show ?case by (cases qs; cases p) auto
qed

lemma rep_JArr:
  "rep h v (JArr js) \<longleftrightarrow> (\<exists>xs. elements h v = Some xs \<and> list_all2 (rep h) xs js)"
  by (auto simp: list_all2_zip split: option.splits)

lemma rep_JObj:
  "rep h v (JObj qs) \<longleftrightarrow>
   (\<exists>ps. properties h v = Some ps \<and> list_all2 (rel_prod (=) (rep h)) ps qs)"
  by (auto simp: list_all2_pairs split: option.splits)

lemma elements_extend: "elements h v = Some xs \<Longrightarrow> elements (h @ h') v = Some xs"
  by (cases v) (auto simp: nth_append split: if_splits)

lemma properties_extend: "properties h v = Some ps \<Longrightarrow> properties (h @ h') v = Some ps"
  by (cases v) (auto simp: nth_append split: if_splits)

text \<open>Allocation keeps what a value stands for.\<close>

lemma rep_extend: "rep h v j \<Longrightarrow> rep (h @ h') v j"
proof (induction h v j rule: rep.induct)
  case (6 h v js)
  then show ?case
    by (auto simp: elements_extend list_all_iff split: option.splits)
next
  case (7 h v qs)
  then show ?case
    by (auto simp: properties_extend list_all_iff split: option.splits)
qed simp_all

lemma zip_index_rel:
  "list_all2 R xs ys \<Longrightarrow>
   list_all2 (rel_prod (=) R) (zip (map f [0..<length xs]) xs) (zip (map f [0..<length ys]) ys)"
  by (auto simp: list_all2_conv_all_nth)

lemma ownPropsH_elements:
  "elements h v = Some xs \<Longrightarrow> ownPropsH h v = zip (map decimal [0..<length xs]) xs"
  by (cases v) (auto split: if_splits cell.splits)

lemma ownPropsH_properties: "properties h v = Some ps \<Longrightarrow> ownPropsH h v = ps"
  by (cases v) (auto split: if_splits cell.splits)

text \<open>The spread reads, in the store, the properties it reads on the value.\<close>

lemma rep_ownProps:
  "rep h v j \<Longrightarrow> list_all2 (rel_prod (=) (rep h)) (ownPropsH h v) (ownProps j)"
proof (cases j)
  case (JStr s)
  assume "rep h v j"
  with JStr have v: "v = HStr s" by simp
  have "list_all2 (rep h) (map (\<lambda>c. HStr [c]) s) (map (\<lambda>c. JStr [c]) s)"
    by (simp add: list_all2_conv_all_nth)
  from zip_index_rel[OF this, of decimal] show ?thesis
    by (simp add: JStr v)
next
  case (JArr js)
  assume "rep h v j"
  with JArr obtain xs where "elements h v = Some xs" "list_all2 (rep h) xs js"
    by (auto simp: rep_JArr simp del: rep.simps)
  with zip_index_rel[OF this(2), of decimal] show ?thesis
    by (simp add: JArr ownPropsH_elements)
next
  case (JObj qs)
  assume "rep h v j"
  with JObj show ?thesis
    by (auto simp: rep_JObj ownPropsH_properties simp del: rep.simps)
qed auto

lemma update_rel:
  "list_all2 (rel_prod (=) R) ps qs \<Longrightarrow> R x y \<Longrightarrow>
   list_all2 (rel_prod (=) R) (AList.update k x ps) (AList.update k y qs)"
  by (induction rule: list_all2_induct) auto

lemma ownPropsH_extend:
  "rep h v j \<Longrightarrow> ownPropsH (h @ h') v = ownPropsH h v"
  by (cases j; cases v) (auto simp: nth_append split: option.splits if_splits)

text \<open>The store after lines 92 to 104: five new cells after the old ones.\<close>

lemma windDataH_eq:
  "windDataH h uHeader uData vHeader vData =
     (HRef (length h + 4),
      h @ [taggedH h uHeader 2,
           HObject [(''header'', HRef (length h)), (''data'', uData)],
           taggedH (h @ [taggedH h uHeader 2,
                         HObject [(''header'', HRef (length h)), (''data'', uData)]]) vHeader 3,
           HObject [(''header'', HRef (length h + 2)), (''data'', vData)],
           HArray [HRef (length h + 1), HRef (length h + 3)]])"
  by (simp add: windDataH_def alloc_def)

lemma rep_taggedH:
  assumes "rep h header j" and "a < length h" and "h ! a = taggedH h0 header n"
    and "ownPropsH h0 header = ownPropsH h header"
  shows "rep h (HRef a) (tagged j n)"
proof -
  have "properties h (HRef a) =
      Some (AList.update ''parameterNumber'' (HNum n) (ownPropsH h header))"
    using assms(2,3,4) by (simp add: taggedH_def)
  moreover have "list_all2 (rel_prod (=) (rep h))
     (AList.update ''parameterNumber'' (HNum n) (ownPropsH h header))
     (AList.update ''parameterNumber'' (JNum n) (ownProps j))"
    using rep_ownProps[OF assms(1)] by (rule update_rel) simp
  ultimately show ?thesis
    unfolding tagged_def rep_JObj by blast
qed

text \<open>
  What lines 92 to 104 build in the store stands for the value \<open>windData\<close> that
  \<open>display\<close> hands to the rendering collaborator.
\<close>

lemma windDataH_represents:
  assumes "windDataH h uHeader uData vHeader vData = (w, h')"
    and "rep h uHeader uh" and "rep h uData ud" and "rep h vHeader vh" and "rep h vData vd"
  shows "rep h' w (windData uh ud vh vd)"
proof -
  let ?c1 = "taggedH h uHeader 2"
  let ?c2 = "HObject [(''header'', HRef (length h)), (''data'', uData)]"
  let ?c3 = "taggedH (h @ [?c1, ?c2]) vHeader 3"
  let ?c4 = "HObject [(''header'', HRef (length h + 2)), (''data'', vData)]"
  let ?c5 = "HArray [HRef (length h + 1), HRef (length h + 3)]"
  from assms(1) have w: "w = HRef (length h + 4)" and h': "h' = h @ [?c1, ?c2, ?c3, ?c4, ?c5]"
    by (simp_all add: windDataH_eq)
  note ext = rep_extend[where h = h and h' = "[?c1, ?c2, ?c3, ?c4, ?c5]", folded h']
  have n: "h' ! length h = ?c1" "h' ! (length h + 1) = ?c2" "h' ! (length h + 2) = ?c3"
      "h' ! (length h + 3) = ?c4" "h' ! (length h + 4) = ?c5"
    by (simp_all add: h' nth_append)
  have len: "length h' = length h + 5"
    by (simp add: h')
  have o1: "ownPropsH h uHeader = ownPropsH h' uHeader"
    unfolding h' using ownPropsH_extend[OF assms(2)] by simp
  have o3: "ownPropsH (h @ [?c1, ?c2]) vHeader = ownPropsH h' vHeader"
    unfolding h' using ownPropsH_extend[OF assms(4)] by simp
  have t1: "rep h' (HRef (length h)) (tagged uh 2)"
    using ext[OF assms(2)] _ n(1) o1 by (rule rep_taggedH) (simp add: len)
  have t3: "rep h' (HRef (length h + 2)) (tagged vh 3)"
    using ext[OF assms(4)] _ n(3) o3 by (rule rep_taggedH) (simp add: len)
  have u: "rep h' (HRef (length h + 1)) (JObj [(''header'', tagged uh 2), (''data'', ud)])"
    using n(2) t1 ext[OF assms(3)] by (simp add: len)
  have v: "rep h' (HRef (length h + 3)) (JObj [(''header'', tagged vh 3), (''data'', vd)])"
    using n(4) t3 ext[OF assms(5)] by (simp add: len)
  show ?thesis
    unfolding w windData_def
    using n(5) u v by (simp add: len)
qed


section \<open>Facts about the example inputs\<close>

lemma fetch_always_ok:
  "invalidFormat data = Inr False \<Longrightarrow>
   fetchWindData (always (Response 200 (Inr data))) 1 3 = (data, firstAttempt data)"
  by (simp add: fetchWindData.simps[of "always (Response 200 (Inr data))"] tryFetch_def comp_defs
      ok_def always_def firstAttempt_def)

lemma expected_grid2x2: "expected exampleRuntime (JObj grid2x2) = Inr (Fin 4)"
  by (simp add: expected_def grid2x2_def times_def multiply_def exampleRuntime_def)

lemma valid_mismatched: "invalidFormat mismatched = Inr False"
  by (simp add: mismatched_def component_def invalidFormat_def)

lemma valid_calm: "invalidFormat calm = Inr False"
  by (simp add: calm_def component_def invalidFormat_def)

lemma valid_scenario: "invalidFormat scenario = Inr False"
  by (simp add: scenario_def component_def invalidFormat_def)

lemma valid_emptyGrid: "invalidFormat emptyGrid = Inr False"
  by (simp add: emptyGrid_def component_def invalidFormat_def)

lemma components_mismatched:
  "components mismatched =
     Inr (JObj grid2x2, JArr (map JNum [1, 0, 2]), JObj grid2x2, JArr (map JNum [0, 1, 1, -2]))"
  by (simp add: mismatched_def component_def components_def)

lemma components_calm:
  "components calm =
     Inr (JObj grid2x2, JArr (map JNum [0, 0, 0, 0]), JObj grid2x2, JArr (map JNum [0, 0, 0, 0]))"
  by (simp add: calm_def component_def components_def)

lemma components_scenario:
  "components scenario =
     Inr (JObj grid2x2, JArr (map JNum [1, 0, -1, 2]), JObj grid2x2, JArr (map JNum [0, 1, 1, -2]))"
  by (simp add: scenario_def component_def components_def)


lemma valid_opaqueDimension: "invalidFormat opaqueDimension = Inr False"
  by (simp add: opaqueDimension_def component_def invalidFormat_def)

lemma valid_noNy: "invalidFormat noNy = Inr False"
  by (simp add: noNy_def component_def invalidFormat_def)

lemma valid_noNxOpaqueNy: "invalidFormat noNxOpaqueNy = Inr False"
  by (simp add: noNxOpaqueNy_def component_def invalidFormat_def)

lemma components_opaqueDimension:
  "components opaqueDimension =
     Inr (JObj [(''nx'', JObj [(''toString'', JNum 0)]), (''ny'', JNum 1)], JArr (map JNum [1]),
          JObj [], JArr (map JNum [1]))"
  by (simp add: opaqueDimension_def component_def components_def)

lemma components_noNy:
  "components noNy =
     Inr (JObj [(''nx'', JNum 2)], JArr (map JNum [1, 2]), JObj [], JArr (map JNum [3, 4]))"
  by (simp add: noNy_def component_def components_def)

lemma components_noNxOpaqueNy:
  "components noNxOpaqueNy =
     Inr (JObj [(''ny'', JObj [(''toString'', JNull)])], JArr (map JNum [1]),
          JObj [], JArr (map JNum [1]))"
  by (simp add: noNxOpaqueNy_def component_def components_def)

lemma loadWindData_calm:
  "loadWindData exampleRuntime (always (Response 200 (Inr calm))) =
     (Inr (), firstAttempt calm @
        diagnostics (JObj grid2x2) (map JNum [0, 0, 0, 0]) (JObj grid2x2) (map JNum [0, 0, 0, 0]) @
        [Console WARN NoMeaningfulWindData, Alert NoDataAlert])"
  by (simp add: loadWindData_arrays[OF fetch_always_ok[OF valid_calm] components_calm]
      display_arrays[OF components_calm] expected_grid2x2)

lemma loadWindData_scenario:
  "loadWindData exampleRuntime (always (Response 200 (Inr scenario))) =
     (Inr (), firstAttempt scenario @
        diagnostics (JObj grid2x2) (map JNum [1, 0, -1, 2]) (JObj grid2x2) (map JNum [0, 1, 1, -2]) @
        [VelocityLayer (windData (JObj grid2x2) (JArr (map JNum [1, 0, -1, 2]))
                                 (JObj grid2x2) (JArr (map JNum [0, 1, 1, -2]))),
         AddTo, Console LOG LoadedSuccessfully])"
  by (simp add: loadWindData_arrays[OF fetch_always_ok[OF valid_scenario] components_scenario]
      display_arrays[OF components_scenario] expected_grid2x2)

lemma rendering_firstAttempt: "rendering (firstAttempt data) = []"
  by (simp add: firstAttempt_def rendering_def)

section \<open>The claims\<close>

text \<open>
  C1. Whichever request of a call it answers, a response with a status from 200 to 299
  whose body is an array of exactly two elements, each with a truthy
  \<^verbatim>\<open>header\<close> and an array as \<^verbatim>\<open>data\<close>, makes \<open>fetchWindData\<close>
  return that very body: when the \<open>k\<close> requests before it ended in the
  \<^verbatim>\<open>catch\<close> and the bound still allows this one, the call makes those
  \<open>k\<close> requests, each followed by the delay, then this request, logs the body and
  returns it, with no alert; for \<open>k = 0\<close> these three events are the whole trace.
\<close>

theorem fetchWindData_returns_body:
  assumes "\<forall>i < k. retried (net i)"
    and "k = 0 \<or> attempt + k \<le> maxAttempts"
    and "net k = Response status (Inr (JArr [d0, d1]))"
    and "200 \<le> status" and "status \<le> 299"
    and "property ''header'' d0 = Inr h0" and "truthy h0"
    and "property ''header'' d1 = Inr h1" and "truthy h1"
    and "property ''data'' d0 = Inr (JArr a0)"
    and "property ''data'' d1 = Inr (JArr a1)"
  shows "\<exists>es0. fetchWindData net attempt maxAttempts =
      (JArr [d0, d1],
       es0 @ [Console LOG (AttemptFetching (attempt + k) url), Fetch url,
              Console LOG (ApiResponse (JArr [d0, d1]))])
    \<and> withoutConsole es0 = concat (replicate k [Fetch url, Wait 2000])
    \<and> (k = 0 \<longrightarrow> es0 = [])"
proof -
  have "ok status"
    using assms(4,5) by (simp add: ok_def)
  moreover have "invalidFormat (JArr [d0, d1]) = Inr False"
    using assms(6-11) by (simp add: invalidFormat_def)
  ultimately show ?thesis
    using assms(1,2,3) by (rule fetch_after_retries[rotated 3])
qed

theorem fetchWindData_returns_body_witness:
  "fetchWindData (always (Response 200 (Inr scenario))) 1 3 = (scenario, firstAttempt scenario)
   \<and> fst (fetchWindData
         (after Rejected (after (Response 200 (Inr nullElements))
            (always (Response 200 (Inr scenario))))) 1 3) = scenario
   \<and> withoutConsole (snd (fetchWindData
         (after Rejected (after (Response 200 (Inr nullElements))
            (always (Response 200 (Inr scenario))))) 1 3)) =
       [Fetch url, Wait 2000, Fetch url, Wait 2000, Fetch url]"
proof -
  let ?u = "component grid2x2 [1, 0, -1, 2]" and ?v = "component grid2x2 [0, 1, 1, -2]"
  let ?net = "after Rejected (after (Response 200 (Inr nullElements))
            (always (Response 200 (Inr scenario))))"
  have p: "property ''header'' ?u = Inr (JObj grid2x2)" "truthy (JObj grid2x2)"
      "property ''header'' ?v = Inr (JObj grid2x2)"
      "property ''data'' ?u = Inr (JArr (map JNum [1, 0, -1, 2]))"
      "property ''data'' ?v = Inr (JArr (map JNum [0, 1, 1, -2]))"
    by (simp_all add: component_def)
  have s: "200 \<le> (200::nat)" "(200::nat) \<le> 299"
    by simp_all
  have a0: "\<forall>i < 0. retried (always (Response 200 (Inr scenario)) i)"
    by simp
  have n0: "always (Response 200 (Inr scenario)) 0 = Response 200 (Inr (JArr [?u, ?v]))"
    by (simp add: always_def scenario_def)
  have a2: "\<forall>i < 2. retried (?net i)"
  proof (intro allI impI)
    fix i :: nat
    assume "i < 2"
    then have "i = 0 \<or> i = 1" by auto
    then show "retried (?net i)"
      by (auto simp: after_def ok_def nullElements_def invalidFormat_def)
  qed
  have b2: "(2::nat) = 0 \<or> 1 + 2 \<le> (3::nat)"
    by simp
  have n2: "?net 2 = Response 200 (Inr (JArr [?u, ?v]))"
    by (simp add: after_def always_def scenario_def numeral_2_eq_2)
  from fetchWindData_returns_body[OF a0 _ n0 s p(1,2,3,2,4,5), of 1 3]
  have "fetchWindData (always (Response 200 (Inr scenario))) 1 3 = (scenario, firstAttempt scenario)"
    by (auto simp: scenario_def firstAttempt_def)
  moreover from fetchWindData_returns_body[OF a2 b2 n2 s p(1,2,3,2,4,5)]
  have "fst (fetchWindData ?net 1 3) = scenario
      \<and> withoutConsole (snd (fetchWindData ?net 1 3)) =
          [Fetch url, Wait 2000, Fetch url, Wait 2000, Fetch url]"
    by (auto simp: scenario_def withoutConsole_def numeral_2_eq_2)
  ultimately show ?thesis by blast
qed

text \<open>
  C2. When each of the three requests of a call fails in transport or comes back with a
  status outside 200 to 299, \<open>fetchWindData\<close> makes exactly three requests, waits
  2000 ms before the second and before the third, and then returns \<^verbatim>\<open>null\<close>
  after one alert, the terminal one.
\<close>

theorem fetchWindData_retries_then_null:
  assumes "\<forall>i < 3. transportFailure (net i)"
  shows "fst (fetchWindData net 1 3) = JNull \<and>
    withoutConsole (snd (fetchWindData net 1 3)) =
      [Fetch url, Wait 2000, Fetch url, Wait 2000, Fetch url, Alert FetchFailedAlert]"
proof -
  have "\<forall>i \<le> 3 - (1::nat). transportFailure (net i)"
    using assms by simp
  from fetch_all_fail[OF this] show ?thesis
    by (simp add: numeral_2_eq_2)
qed

theorem fetchWindData_retries_then_null_witness:
  "transportFailure (always (Response 503 (Inl SyntaxError)) 0) \<and>
   transportFailure (always (Response 503 (Inl SyntaxError)) 1) \<and>
   transportFailure (always (Response 503 (Inl SyntaxError)) 2) \<and>
   fst (fetchWindData (always (Response 503 (Inl SyntaxError))) 1 3) = JNull \<and>
   withoutConsole (snd (fetchWindData (always (Response 503 (Inl SyntaxError))) 1 3)) =
     [Fetch url, Wait 2000, Fetch url, Wait 2000, Fetch url, Alert FetchFailedAlert]"
proof -
  have h: "\<forall>i < 3. transportFailure (always (Response 503 (Inl SyntaxError)) i)"
    by (simp add: always_def ok_def)
  from h fetchWindData_retries_then_null[OF h] show ?thesis by simp
qed

text \<open>
  C3, at the body \<^verbatim>\<open>[null, null]\<close> served with status 200: reading
  \<^verbatim>\<open>data[0].header\<close> throws inside the \<^verbatim>\<open>try\<close>, the \<^verbatim>\<open>catch\<close>
  retries, and the call makes three requests and ends with the alert of the exhausted
  retries, where a body that fails the check without an exception gives
  \<^verbatim>\<open>null\<close> after one request (\<open>format_error_returns_null\<close>).
\<close>

theorem fetchWindData_null_element_retried:
  "fst (fetchWindData (always (Response 200 (Inr nullElements))) 1 3) = JNull
   \<and> withoutConsole (snd (fetchWindData (always (Response 200 (Inr nullElements))) 1 3)) =
       [Fetch url, Wait 2000, Fetch url, Wait 2000, Fetch url, Alert FetchFailedAlert]"
  by (simp add: fetchWindData.simps tryFetch_def comp_defs ok_def always_def
      invalidFormat_def nullElements_def withoutConsole_def)

text \<open>
  C4. When the fetched body passed the check and \<^verbatim>\<open>nx * ny\<close> of the U header
  differs from the length of the U data or of the V data, \<open>loadWindData\<close> logs the two
  lengths and the expected one, alerts, and returns; the rendering collaborator is
  never called.
\<close>

theorem loadWindData_length_mismatch:
  assumes "fetchWindData net 1 3 = (data, es)"
    and "components data = Inr (uHeader, JArr uData, vHeader, JArr vData)"
    and "expected rt uHeader = Inr nxny"
    and "nxny \<noteq> Fin (real (length uData)) \<or> nxny \<noteq> Fin (real (length vData))"
  shows "loadWindData rt net =
      (Inr (), es @ diagnostics uHeader uData vHeader vData @
         [Console ERROR
            (DataLengthMismatch (JNum (real (length uData))) (JNum (real (length vData))) nxny),
          Alert LengthMismatchAlert])
    \<and> rendering (snd (loadWindData rt net)) = []"
proof -
  have "display rt data =
      (Inr (), diagnostics uHeader uData vHeader vData @
         [Console ERROR
            (DataLengthMismatch (JNum (real (length uData))) (JNum (real (length vData))) nxny),
          Alert LengthMismatchAlert])"
    using assms(3,4) by (simp add: display_arrays[OF assms(2)])
  then show ?thesis
    using fetch_quiet[OF assms(1)]
    by (simp add: loadWindData_arrays[OF assms(1,2)] rendering_def diagnostics_def)
qed

theorem loadWindData_length_mismatch_witness:
  "loadWindData exampleRuntime (always (Response 200 (Inr mismatched))) =
     (Inr (), firstAttempt mismatched @
        diagnostics (JObj grid2x2) (map JNum [1, 0, 2]) (JObj grid2x2) (map JNum [0, 1, 1, -2]) @
        [Console ERROR (DataLengthMismatch (JNum 3) (JNum 4) (Fin 4)),
         Alert LengthMismatchAlert])
   \<and> rendering (snd (loadWindData exampleRuntime (always (Response 200 (Inr mismatched))))) = []"
proof -
  have n: "Fin 4 \<noteq> Fin (real (length (map JNum [1, 0, 2])))
      \<or> Fin 4 \<noteq> Fin (real (length (map JNum [0, 1, 1, -2])))"
    by simp
  have "real (length (map JNum [1, 0, 2])) = 3" and "real (length (map JNum [0, 1, 1, -2])) = 4"
    by simp_all
  with loadWindData_length_mismatch
         [OF fetch_always_ok[OF valid_mismatched] components_mismatched expected_grid2x2 n]
  show ?thesis by metis
qed

text \<open>
  C5. When the fetched body passed the check and both data lengths equal
  \<^verbatim>\<open>nx * ny\<close>: if every sample of both arrays is the number 0,
  \<open>loadWindData\<close> warns, alerts that there is no meaningful data and returns without
  calling the rendering collaborator; if some sample of either array is not 0, neither
  that warning nor that alert occurs.
\<close>

theorem loadWindData_no_meaningful_data:
  assumes "fetchWindData net 1 3 = (data, es)"
    and "components data = Inr (uHeader, JArr uData, vHeader, JArr vData)"
    and "expected rt uHeader = Inr (Fin (real (length uData)))"
    and "length vData = length uData"
  shows "((\<forall>speed \<in> set uData \<union> set vData. speed = JNum 0) \<longrightarrow>
        loadWindData rt net =
          (Inr (), es @ diagnostics uHeader uData vHeader vData @
             [Console WARN NoMeaningfulWindData, Alert NoDataAlert])
        \<and> rendering (snd (loadWindData rt net)) = [])
    \<and> ((\<exists>speed \<in> set uData \<union> set vData. speed \<noteq> JNum 0) \<longrightarrow>
        Alert NoDataAlert \<notin> set (snd (loadWindData rt net))
        \<and> Console WARN NoMeaningfulWindData \<notin> set (snd (loadWindData rt net)))"
proof -
  have d: "display rt data =
      (Inr (), diagnostics uHeader uData vHeader vData @
         (if \<forall>speed \<in> set uData \<union> set vData. speed = JNum 0 then
            [Console WARN NoMeaningfulWindData, Alert NoDataAlert]
          else
            [VelocityLayer (windData uHeader (JArr uData) vHeader (JArr vData)), AddTo,
             Console LOG LoadedSuccessfully]))"
    using assms(3,4) by (simp add: display_arrays[OF assms(2)])
  show ?thesis
    using fetch_quiet[OF assms(1)]
    by (auto simp: loadWindData_arrays[OF assms(1,2)] d rendering_def diagnostics_def)
qed

theorem loadWindData_no_meaningful_data_witness:
  "loadWindData exampleRuntime (always (Response 200 (Inr calm))) =
     (Inr (), firstAttempt calm @
        diagnostics (JObj grid2x2) (map JNum [0, 0, 0, 0]) (JObj grid2x2) (map JNum [0, 0, 0, 0]) @
        [Console WARN NoMeaningfulWindData, Alert NoDataAlert])
   \<and> rendering (snd (loadWindData exampleRuntime (always (Response 200 (Inr calm))))) = []
   \<and> Alert NoDataAlert \<notin> set (snd (loadWindData exampleRuntime (always (Response 200 (Inr scenario)))))
   \<and> Console WARN NoMeaningfulWindData
       \<notin> set (snd (loadWindData exampleRuntime (always (Response 200 (Inr scenario)))))"
proof -
  have e: "expected exampleRuntime (JObj grid2x2) = Inr (Fin (real (length (map JNum [0, 0, 0, 0]))))"
    by (simp add: expected_grid2x2)
  have e': "expected exampleRuntime (JObj grid2x2) = Inr (Fin (real (length (map JNum [1, 0, -1, 2]))))"
    by (simp add: expected_grid2x2)
  have z: "\<forall>speed \<in> set (map JNum [0, 0, 0, 0]) \<union> set (map JNum [0, 0, 0, 0]). speed = JNum 0"
    by simp
  have nz: "\<exists>speed \<in> set (map JNum [1, 0, -1, 2]) \<union> set (map JNum [0, 1, 1, -2]). speed \<noteq> JNum 0"
    by simp
  have l: "length (map JNum [0, 0, 0, (0::real)]) = length (map JNum [0, 0, 0, (0::real)])"
    by simp
  have l': "length (map JNum [0, 1, 1, -2]) = length (map JNum [1, 0, -1, 2])"
    by simp
  from loadWindData_no_meaningful_data
         [OF fetch_always_ok[OF valid_calm] components_calm e l, THEN conjunct1, THEN mp, OF z]
       loadWindData_no_meaningful_data
         [OF fetch_always_ok[OF valid_scenario] components_scenario e' l', THEN conjunct2,
          THEN mp, OF nz]
  show ?thesis by blast
qed

text \<open>
  C6. When the fetched body passed the check, both data lengths equal
  \<^verbatim>\<open>nx * ny\<close> and some sample is not 0, \<open>loadWindData\<close> calls the rendering
  collaborator exactly once, with an array of two components: the first has the
  original U data and a header whose \<^verbatim>\<open>parameterNumber\<close> is 2, the second the
  original V data and a header whose \<^verbatim>\<open>parameterNumber\<close> is 3.
\<close>

theorem loadWindData_renders:
  assumes "fetchWindData net 1 3 = (data, es)"
    and "components data = Inr (uHeader, JArr uData, vHeader, JArr vData)"
    and "expected rt uHeader = Inr (Fin (real (length uData)))"
    and "length vData = length uData"
    and "\<exists>speed \<in> set uData \<union> set vData. speed \<noteq> JNum 0"
  shows "loadWindData rt net =
      (Inr (), es @ diagnostics uHeader uData vHeader vData @
         [VelocityLayer (windData uHeader (JArr uData) vHeader (JArr vData)), AddTo,
          Console LOG LoadedSuccessfully])
    \<and> rendering (snd (loadWindData rt net)) =
        [VelocityLayer (windData uHeader (JArr uData) vHeader (JArr vData)), AddTo]
    \<and> windData uHeader (JArr uData) vHeader (JArr vData) =
        JArr [JObj [(''header'', tagged uHeader 2), (''data'', JArr uData)],
              JObj [(''header'', tagged vHeader 3), (''data'', JArr vData)]]
    \<and> property ''parameterNumber'' (tagged uHeader 2) = Inr (JNum 2)
    \<and> property ''parameterNumber'' (tagged vHeader 3) = Inr (JNum 3)"
proof -
  have d: "display rt data =
      (Inr (), diagnostics uHeader uData vHeader vData @
         [VelocityLayer (windData uHeader (JArr uData) vHeader (JArr vData)), AddTo,
          Console LOG LoadedSuccessfully])"
    using assms(3,4,5) by (auto simp: display_arrays[OF assms(2)])
  have p: "property ''parameterNumber'' (tagged h n) = Inr (JNum n)" for h n
    by (simp add: tagged_def update_conv')
  show ?thesis
    using fetch_quiet[OF assms(1)]
    by (simp add: loadWindData_arrays[OF assms(1,2)] d p windData_def)
qed

theorem loadWindData_renders_witness:
  "loadWindData exampleRuntime (always (Response 200 (Inr scenario))) =
     (Inr (), firstAttempt scenario @
        diagnostics (JObj grid2x2) (map JNum [1, 0, -1, 2]) (JObj grid2x2) (map JNum [0, 1, 1, -2]) @
        [VelocityLayer
           (JArr [JObj [(''header'', JObj [(''nx'', JNum 2), (''ny'', JNum 2),
                                          (''parameterNumber'', JNum 2)]),
                        (''data'', JArr (map JNum [1, 0, -1, 2]))],
                  JObj [(''header'', JObj [(''nx'', JNum 2), (''ny'', JNum 2),
                                          (''parameterNumber'', JNum 3)]),
                        (''data'', JArr (map JNum [0, 1, 1, -2]))]]),
         AddTo, Console LOG LoadedSuccessfully])"
proof -
  have e: "expected exampleRuntime (JObj grid2x2) = Inr (Fin (real (length (map JNum [1, 0, -1, 2]))))"
    by (simp add: expected_grid2x2)
  have nz: "\<exists>speed \<in> set (map JNum [1, 0, -1, 2]) \<union> set (map JNum [0, 1, 1, -2]). speed \<noteq> JNum 0"
    by simp
  from loadWindData_renders[OF fetch_always_ok[OF valid_scenario] components_scenario e _ nz]
  show ?thesis
    by (simp add: tagged_def grid2x2_def)
qed

text \<open>
  C7. Lines 92 to 104 change no cell that was in the store, and what they build stands
  for \<open>windData\<close> of the original parts: its two components hold the references
  to the original data arrays and new headers, in which every property of the original
  header other than \<^verbatim>\<open>parameterNumber\<close> has its value, and
  \<^verbatim>\<open>parameterNumber\<close> is 2 for U and 3 for V whether or not the header had
  one.
\<close>

theorem tagging_frame:
  assumes "windDataH h uHeader uData vHeader vData = (w, h')"
    and "rep h uHeader uh" and "rep h uData ud" and "rep h vHeader vh" and "rep h vData vd"
  shows "take (length h) h' = h
    \<and> rep h' w (windData uh ud vh vd)
    \<and> h' ! (length h + 1) = HObject [(''header'', HRef (length h)), (''data'', uData)]
    \<and> h' ! (length h + 3) = HObject [(''header'', HRef (length h + 2)), (''data'', vData)]
    \<and> components (windData uh ud vh vd) = Inr (tagged uh 2, ud, tagged vh 3, vd)
    \<and> (k \<noteq> ''parameterNumber'' \<longrightarrow>
         map_of (ownProps (tagged uh 2)) k = map_of (ownProps uh) k
         \<and> map_of (ownProps (tagged vh 3)) k = map_of (ownProps vh) k)
    \<and> map_of (ownProps (tagged uh 2)) ''parameterNumber'' = Some (JNum 2)
    \<and> map_of (ownProps (tagged vh 3)) ''parameterNumber'' = Some (JNum 3)"
proof -
  have "take (length h) h' = h"
    and "h' ! (length h + 1) = HObject [(''header'', HRef (length h)), (''data'', uData)]"
    and "h' ! (length h + 3) = HObject [(''header'', HRef (length h + 2)), (''data'', vData)]"
    using assms(1) by (auto simp: windDataH_eq nth_append)
  moreover have "rep h' w (windData uh ud vh vd)"
    using assms by (rule windDataH_represents)
  moreover have "components (windData uh ud vh vd) = Inr (tagged uh 2, ud, tagged vh 3, vd)"
    by (simp add: windData_def components_def)
  moreover have "map_of (ownProps (tagged j n)) k' =
      (if k' = ''parameterNumber'' then Some (JNum n) else map_of (ownProps j) k')" for j n k'
    by (simp add: tagged_def update_conv')
  ultimately show ?thesis by simp
qed

theorem tagging_frame_witness:
  "take 4 (snd (windDataH exampleStore (HRef 0) (HRef 1) (HRef 2) (HRef 3))) = exampleStore
   \<and> snd (windDataH exampleStore (HRef 0) (HRef 1) (HRef 2) (HRef 3)) ! 5 =
       HObject [(''header'', HRef 4), (''data'', HRef 1)]
   \<and> snd (windDataH exampleStore (HRef 0) (HRef 1) (HRef 2) (HRef 3)) ! 7 =
       HObject [(''header'', HRef 6), (''data'', HRef 3)]
   \<and> map_of (ownProps (tagged (JObj [(''nx'', JNum 2), (''parameterNumber'', JNum 7),
                                       (''ny'', JNum 1)]) 2)) ''ny'' = Some (JNum 1)
   \<and> map_of (ownProps (tagged (JObj [(''nx'', JNum 2), (''parameterNumber'', JNum 7),
                                       (''ny'', JNum 1)]) 2)) ''parameterNumber'' = Some (JNum 2)
   \<and> rep (snd (windDataH exampleStore (HRef 0) (HRef 1) (HRef 2) (HRef 3)))
        (fst (windDataH exampleStore (HRef 0) (HRef 1) (HRef 2) (HRef 3)))
        (JArr [JObj [(''header'', JObj [(''nx'', JNum 2), (''parameterNumber'', JNum 2),
                                        (''ny'', JNum 1)]),
                     (''data'', JArr [JNum 1, JNum 0])],
               JObj [(''header'', JObj [(''nx'', JNum 2), (''ny'', JNum 1),
                                        (''parameterNumber'', JNum 3)]),
                     (''data'', JArr [JNum 0, JNum 1])]])"
proof -
  let ?uh = "JObj [(''nx'', JNum 2), (''parameterNumber'', JNum 7), (''ny'', JNum 1)]"
  let ?vh = "JObj [(''nx'', JNum 2), (''ny'', JNum 1)]"
  have r0: "rep exampleStore (HRef 0) ?uh"
    by (simp add: exampleStore_def)
  have r1: "rep exampleStore (HRef 1) (JArr [JNum 1, JNum 0])"
    by (simp add: exampleStore_def)
  have r2: "rep exampleStore (HRef 2) ?vh"
    by (simp add: exampleStore_def)
  have r3: "rep exampleStore (HRef 3) (JArr [JNum 0, JNum 1])"
    by (simp add: exampleStore_def)
  have l: "length exampleStore = 4"
    by (simp add: exampleStore_def)
  have n: "''ny'' \<noteq> ''parameterNumber''"
    by simp
  from tagging_frame[OF surjective_pairing r0 r1 r2 r3, of "''ny''"] n
  show ?thesis
    unfolding l by (simp add: windData_def tagged_def)
qed

text \<open>
  C8, at a body whose U header has an object with a property \<^verbatim>\<open>toString\<close> as
  \<^verbatim>\<open>nx\<close>: the body passes the check of line 35, and \<^verbatim>\<open>nx * ny\<close>
  throws a \<open>TypeError\<close> that nothing in \<open>loadWindData\<close> catches.
\<close>

theorem loadWindData_throws_counterexample:
  "loadWindData exampleRuntime (always (Response 200 (Inr opaqueDimension))) =
     (Inl TypeError,
      firstAttempt opaqueDimension @
      diagnostics (JObj [(''nx'', JObj [(''toString'', JNum 0)]), (''ny'', JNum 1)]) (map JNum [1])
        (JObj []) (map JNum [1]))"
  by (simp add: loadWindData_arrays[OF fetch_always_ok[OF valid_opaqueDimension]
                  components_opaqueDimension]
      display_arrays[OF components_opaqueDimension] expected_def times_def)

text \<open>
  C8 as amended. \<open>fetchWindData\<close> has no way to throw, and a \<^verbatim>\<open>null\<close>
  result comes right after an error line and an alert. \<open>loadWindData\<close> throws
  exactly when \<^verbatim>\<open>nx\<close> or \<^verbatim>\<open>ny\<close> of the U header of the fetched body
  is unconvertible, and then what it throws is a \<open>TypeError\<close> and nothing was
  rendered; when it returns without rendering, the last thing it did was an alert.
\<close>

theorem loadWindData_exceptions:
  "(fst (fetchWindData net attempt maxAttempts) = JNull \<longrightarrow>
      (\<exists>es0 m a. snd (fetchWindData net attempt maxAttempts) = es0 @ [Console ERROR m, Alert a]))
   \<and> (fst (loadWindData rt net) = Inl e \<longleftrightarrow>
        e = TypeError \<and>
        (\<exists>uHeader uData vHeader vData nx ny.
           components (fst (fetchWindData net 1 3)) = Inr (uHeader, uData, vHeader, vData)
           \<and> property ''nx'' uHeader = Inr nx \<and> property ''ny'' uHeader = Inr ny
           \<and> (unconvertible nx \<or> unconvertible ny)))
   \<and> (fst (loadWindData rt net) = Inl e \<longrightarrow> rendering (snd (loadWindData rt net)) = [])
   \<and> (fst (loadWindData rt net) = Inr () \<and> rendering (snd (loadWindData rt net)) = [] \<longrightarrow>
        (\<exists>es0 a. snd (loadWindData rt net) = es0 @ [Alert a]))"
proof -
  have A: "fst (fetchWindData net attempt maxAttempts) = JNull \<longrightarrow>
      (\<exists>es0 m a. snd (fetchWindData net attempt maxAttempts) = es0 @ [Console ERROR m, Alert a])"
    using fetch_null_alert[of net attempt maxAttempts "snd (fetchWindData net attempt maxAttempts)"]
    by (cases "fetchWindData net attempt maxAttempts") auto
  obtain data es where f: "fetchWindData net 1 3 = (data, es)"
    by (cases "fetchWindData net 1 3")
  note q = fetch_quiet[OF f]
  have B: "(fst (loadWindData rt net) = Inl e \<longleftrightarrow>
        e = TypeError \<and>
        (\<exists>uHeader uData vHeader vData nx ny.
           components data = Inr (uHeader, uData, vHeader, vData)
           \<and> property ''nx'' uHeader = Inr nx \<and> property ''ny'' uHeader = Inr ny
           \<and> (unconvertible nx \<or> unconvertible ny)))
     \<and> (fst (loadWindData rt net) = Inl e \<longrightarrow> rendering (snd (loadWindData rt net)) = [])
     \<and> (fst (loadWindData rt net) = Inr () \<and> rendering (snd (loadWindData rt net)) = [] \<longrightarrow>
        (\<exists>es0 a. snd (loadWindData rt net) = es0 @ [Alert a]))"
  proof (cases "data = JNull")
    case True
    with f have l: "loadWindData rt net = (Inr (), es)"
      by (simp add: loadWindData_null)
    from f True fetch_null_alert obtain es0 m a where "es = (es0 @ [Console ERROR m]) @ [Alert a]"
      by fastforce
    with l True show ?thesis
      by (auto simp: components_def)
  next
    case False
    with fetch_shape[OF f] have "invalidFormat data = Inr False" by simp
    from valid_components[OF this] obtain uHeader us vHeader vs where
      c: "components data = Inr (uHeader, JArr us, vHeader, JArr vs)" and t: "truthy uHeader"
      by blast
    from expected_cases[OF t] obtain nx ny where
      p: "property ''nx'' uHeader = Inr nx" "property ''ny'' uHeader = Inr ny"
         "expected rt uHeader = times rt nx ny"
      by blast
    note l = loadWindData_arrays[OF f c, of rt]
    note d = display_arrays[OF c, of rt]
    show ?thesis
    proof (cases "times rt nx ny")
      case (Inl e')
      with times_throws[of rt nx ny e'] have e': "e' = TypeError" "unconvertible nx \<or> unconvertible ny"
        by simp_all
      from Inl p(3) d have "display rt data = (Inl e', diagnostics uHeader us vHeader vs)"
        by simp
      with l e' c p q show ?thesis by auto
    next
      case (Inr nxny)
      with times_throws[of rt nx ny TypeError] have n: "\<not> unconvertible nx" "\<not> unconvertible ny"
        by simp_all
      from Inr p(3) d have "fst (display rt data) = Inr ()" by simp
      moreover have "\<exists>es0 a. es @ snd (display rt data) = es0 @ [Alert a]"
        if "rendering (es @ snd (display rt data)) = []"
      proof -
        have "snd (display rt data) =
            diagnostics uHeader us vHeader vs @
              [Console ERROR
                 (DataLengthMismatch (JNum (real (length us))) (JNum (real (length vs))) nxny)]
              @ [Alert LengthMismatchAlert]
          \<or> snd (display rt data) =
            diagnostics uHeader us vHeader vs @ [Console WARN NoMeaningfulWindData]
              @ [Alert NoDataAlert]"
          using that Inr p(3) d by (auto split: if_splits)
        then show ?thesis
          by (metis append_assoc)
      qed
      ultimately show ?thesis
        using l c p n by auto
    qed
  qed
  have "data = fst (fetchWindData net 1 3)"
    using f by simp
  with A B show ?thesis by blast
qed

theorem loadWindData_exceptions_witness:
  "(\<exists>es0 m a. snd (fetchWindData (always Rejected) 1 3) = es0 @ [Console ERROR m, Alert a])
   \<and> fst (loadWindData exampleRuntime (always (Response 200 (Inr opaqueDimension)))) = Inl TypeError
   \<and> rendering (snd (loadWindData exampleRuntime (always (Response 200 (Inr opaqueDimension))))) = []
   \<and> (\<exists>es0 a. snd (loadWindData exampleRuntime (always (Response 200 (Inr calm)))) = es0 @ [Alert a])"
proof -
  have h1: "fst (fetchWindData (always Rejected) 1 3) = JNull"
    by (simp add: fetchWindData.simps tryFetch_def comp_defs always_def)
  have h2: "TypeError = TypeError \<and>
      (\<exists>uHeader uData vHeader vData nx ny.
         components (fst (fetchWindData (always (Response 200 (Inr opaqueDimension))) 1 3)) =
           Inr (uHeader, uData, vHeader, vData)
         \<and> property ''nx'' uHeader = Inr nx \<and> property ''ny'' uHeader = Inr ny
         \<and> (unconvertible nx \<or> unconvertible ny))"
  proof -
    have "components (fst (fetchWindData (always (Response 200 (Inr opaqueDimension))) 1 3)) =
        Inr (JObj [(''nx'', JObj [(''toString'', JNum 0)]), (''ny'', JNum 1)], JArr (map JNum [1]),
             JObj [], JArr (map JNum [1]))"
      by (simp only: fetch_always_ok[OF valid_opaqueDimension] fst_conv components_opaqueDimension)
    moreover have "property ''nx'' (JObj [(''nx'', JObj [(''toString'', JNum 0)]), (''ny'', JNum 1)])
        = Inr (JObj [(''toString'', JNum 0)])"
      by simp
    moreover have "property ''ny'' (JObj [(''nx'', JObj [(''toString'', JNum 0)]), (''ny'', JNum 1)])
        = Inr (JNum 1)"
      by simp
    moreover have "unconvertible (JObj [(''toString'', JNum 0)])"
      by simp
    ultimately show ?thesis by blast
  qed
  have h3: "fst (loadWindData exampleRuntime (always (Response 200 (Inr calm)))) = Inr ()
      \<and> rendering (snd (loadWindData exampleRuntime (always (Response 200 (Inr calm))))) = []"
    by (simp add: loadWindData_calm rendering_firstAttempt)
  note t1 = loadWindData_exceptions
    [where net = "always Rejected" and attempt = 1 and maxAttempts = 3]
  note t2 = loadWindData_exceptions
    [where net = "always (Response 200 (Inr opaqueDimension))" and rt = exampleRuntime
       and e = TypeError]
  note t3 = loadWindData_exceptions
    [where net = "always (Response 200 (Inr calm))" and rt = exampleRuntime]
  from t1 h1 have "\<exists>es0 m a. snd (fetchWindData (always Rejected) 1 3) = es0 @ [Console ERROR m, Alert a]"
    by blast
  moreover from t2 h2
  have e: "fst (loadWindData exampleRuntime (always (Response 200 (Inr opaqueDimension)))) = Inl TypeError"
    by blast
  moreover from t2 e
  have "rendering (snd (loadWindData exampleRuntime (always (Response 200 (Inr opaqueDimension))))) = []"
    by blast
  moreover from t3 h3
  have "\<exists>es0 a. snd (loadWindData exampleRuntime (always (Response 200 (Inr calm)))) = es0 @ [Alert a]"
    by blast
  ultimately show ?thesis by blast
qed

text \<open>
  C9, at a body whose U header has no \<^verbatim>\<open>nx\<close> and an object with a property
  \<^verbatim>\<open>toString\<close> as \<^verbatim>\<open>ny\<close>: the condition of line 73 throws, and
  \<open>loadWindData\<close> ends without the error line and the alert of the length mismatch.
\<close>

theorem missing_nx_counterexample:
  "property ''nx'' (JObj [(''ny'', JObj [(''toString'', JNull)])]) = Inr JUndefined
   \<and> loadWindData exampleRuntime (always (Response 200 (Inr noNxOpaqueNy))) =
     (Inl TypeError,
      firstAttempt noNxOpaqueNy @
      diagnostics (JObj [(''ny'', JObj [(''toString'', JNull)])]) (map JNum [1])
        (JObj []) (map JNum [1]))"
  by (simp add: loadWindData_arrays[OF fetch_always_ok[OF valid_noNxOpaqueNy]
                  components_noNxOpaqueNy]
      display_arrays[OF components_noNxOpaqueNy] expected_def times_def)

text \<open>
  C9 as amended. For a fetched body that passed the check: rendering is reached only
  when \<^verbatim>\<open>nx * ny\<close> is a number equal to both data lengths; when
  \<^verbatim>\<open>nx * ny\<close> is \<^verbatim>\<open>NaN\<close>, \<open>loadWindData\<close> takes the branch of the
  length mismatch; and when the U header has no \<^verbatim>\<open>nx\<close> or no \<^verbatim>\<open>ny\<close>,
  nothing is rendered, \<^verbatim>\<open>nx * ny\<close> being \<^verbatim>\<open>NaN\<close> unless its
  evaluation throws a \<open>TypeError\<close>.
\<close>

theorem loadWindData_missing_dimensions:
  assumes "fetchWindData net 1 3 = (data, es)"
    and "components data = Inr (uHeader, JArr uData, vHeader, JArr vData)"
  shows "(rendering (snd (loadWindData rt net)) \<noteq> [] \<longrightarrow>
        expected rt uHeader = Inr (Fin (real (length uData))) \<and> length vData = length uData)
    \<and> (expected rt uHeader = Inr NaN \<longrightarrow>
        loadWindData rt net =
          (Inr (), es @ diagnostics uHeader uData vHeader vData @
             [Console ERROR
                (DataLengthMismatch (JNum (real (length uData))) (JNum (real (length vData))) NaN),
              Alert LengthMismatchAlert]))
    \<and> (property ''nx'' uHeader = Inr JUndefined \<or> property ''ny'' uHeader = Inr JUndefined \<longrightarrow>
        rendering (snd (loadWindData rt net)) = []
        \<and> (expected rt uHeader = Inr NaN \<or> expected rt uHeader = Inl TypeError))"
proof -
  note l = loadWindData_arrays[OF assms, of rt]
  note d = display_arrays[OF assms(2), of rt]
  note q = fetch_quiet[OF assms(1)]
  have r: "rendering (snd (loadWindData rt net)) = rendering (snd (display rt data))"
    using l q by simp
  have A: "expected rt uHeader = Inr (Fin (real (length uData))) \<and> length vData = length uData"
    if "rendering (snd (loadWindData rt net)) \<noteq> []"
    using that unfolding r d
    by (cases "expected rt uHeader") (auto split: if_splits)
  have B: "loadWindData rt net =
          (Inr (), es @ diagnostics uHeader uData vHeader vData @
             [Console ERROR
                (DataLengthMismatch (JNum (real (length uData))) (JNum (real (length vData))) NaN),
              Alert LengthMismatchAlert])"
    if "expected rt uHeader = Inr NaN"
    using that l d by simp
  have C: "expected rt uHeader = Inr NaN \<or> expected rt uHeader = Inl TypeError"
    if m: "property ''nx'' uHeader = Inr JUndefined \<or> property ''ny'' uHeader = Inr JUndefined"
  proof (cases "expected rt uHeader")
    case (Inl e)
    then have "e = TypeError"
      using m times_throws by (auto simp: expected_def property_throws split: sum.splits)
    with Inl show ?thesis by simp
  next
    case (Inr n)
    then have "n = NaN"
      using m times_undefined by (auto simp: expected_def split: sum.splits)
    with Inr show ?thesis by simp
  qed
  have D: "rendering (snd (loadWindData rt net)) = []"
    if m: "property ''nx'' uHeader = Inr JUndefined \<or> property ''ny'' uHeader = Inr JUndefined"
    using A C[OF m] by fastforce
  from A B C D show ?thesis by blast
qed

theorem loadWindData_missing_dimensions_witness:
  "property ''ny'' (JObj [(''nx'', JNum 2)]) = Inr JUndefined
   \<and> expected exampleRuntime (JObj [(''nx'', JNum 2)]) = Inr NaN
   \<and> loadWindData exampleRuntime (always (Response 200 (Inr noNy))) =
       (Inr (), firstAttempt noNy @
          diagnostics (JObj [(''nx'', JNum 2)]) (map JNum [1, 2]) (JObj []) (map JNum [3, 4]) @
          [Console ERROR
             (DataLengthMismatch (JNum (real (length (map JNum [1, 2]))))
                (JNum (real (length (map JNum [3, 4])))) NaN),
           Alert LengthMismatchAlert])
   \<and> rendering (snd (loadWindData exampleRuntime (always (Response 200 (Inr noNy))))) = []
   \<and> expected exampleRuntime (JObj grid2x2) = Inr (Fin (real (length (map JNum [1, 0, -1, 2]))))"
proof -
  have m: "property ''ny'' (JObj [(''nx'', JNum 2)]) = Inr JUndefined"
    by simp
  have n: "expected exampleRuntime (JObj [(''nx'', JNum 2)]) = Inr NaN"
    by (simp add: expected_def times_def multiply_def)
  have r: "rendering (snd (loadWindData exampleRuntime (always (Response 200 (Inr scenario))))) \<noteq> []"
    by (simp add: loadWindData_scenario rendering_firstAttempt)
  note t = loadWindData_missing_dimensions
    [OF fetch_always_ok[OF valid_noNy] components_noNy, of exampleRuntime]
  note t' = loadWindData_missing_dimensions
    [OF fetch_always_ok[OF valid_scenario] components_scenario, of exampleRuntime]
  from t n have "loadWindData exampleRuntime (always (Response 200 (Inr noNy))) =
       (Inr (), firstAttempt noNy @
          diagnostics (JObj [(''nx'', JNum 2)]) (map JNum [1, 2]) (JObj []) (map JNum [3, 4]) @
          [Console ERROR
             (DataLengthMismatch (JNum (real (length (map JNum [1, 2]))))
                (JNum (real (length (map JNum [3, 4])))) NaN),
           Alert LengthMismatchAlert])"
    by blast
  moreover from t m
  have "rendering (snd (loadWindData exampleRuntime (always (Response 200 (Inr noNy))))) = []"
    by blast
  moreover from t' r
  have "expected exampleRuntime (JObj grid2x2) = Inr (Fin (real (length (map JNum [1, 0, -1, 2]))))"
    by blast
  ultimately show ?thesis using m n by blast
qed

text \<open>
  C10. When the fetched body passed the check, both data arrays are empty and
  \<^verbatim>\<open>nx * ny\<close> of the U header is 0, the length check passes and
  \<open>loadWindData\<close> stops at the warning that there is no meaningful data: the
  rendering collaborator is never called for an empty grid.
\<close>

theorem loadWindData_empty_grid:
  assumes "fetchWindData net 1 3 = (data, es)"
    and "components data = Inr (uHeader, JArr [], vHeader, JArr [])"
    and "expected rt uHeader = Inr (Fin 0)"
  shows "loadWindData rt net =
      (Inr (), es @ diagnostics uHeader [] vHeader [] @
         [Console WARN NoMeaningfulWindData, Alert NoDataAlert])
    \<and> rendering (snd (loadWindData rt net)) = []"
proof -
  have "display rt data =
      (Inr (), diagnostics uHeader [] vHeader [] @
         [Console WARN NoMeaningfulWindData, Alert NoDataAlert])"
    using assms(3) by (simp add: display_arrays[OF assms(2)])
  then show ?thesis
    using fetch_quiet[OF assms(1)]
    by (simp add: loadWindData_arrays[OF assms(1,2)] rendering_def diagnostics_def)
qed

theorem loadWindData_empty_grid_witness:
  "loadWindData exampleRuntime (always (Response 200 (Inr emptyGrid))) =
     (Inr (), firstAttempt emptyGrid @
        diagnostics (JObj [(''nx'', JNum 0), (''ny'', JNum 5)]) [] (JObj []) [] @
        [Console WARN NoMeaningfulWindData, Alert NoDataAlert])
   \<and> rendering (snd (loadWindData exampleRuntime (always (Response 200 (Inr emptyGrid))))) = []"
proof -
  have c: "components emptyGrid =
      Inr (JObj [(''nx'', JNum 0), (''ny'', JNum 5)], JArr [], JObj [], JArr [])"
    by (simp add: emptyGrid_def component_def components_def)
  have e: "expected exampleRuntime (JObj [(''nx'', JNum 0), (''ny'', JNum 5)]) = Inr (Fin 0)"
    by (simp add: expected_def times_def multiply_def exampleRuntime_def)
  from loadWindData_empty_grid[OF fetch_always_ok[OF valid_emptyGrid] c e]
  show ?thesis .
qed

end
